theory Spec2Isabelle
  imports
    Complex_Main
    "HOL-Library.Char_ord"
    "HOL-Library.List_Lexorder"
    "HOL-Library.Sublist"
begin

text \<open>
  A model of the aggregation engine of v2ex-digest: the scorer and the ranker
  (\<^verbatim>\<open>scorer.ts\<close>), the in-memory store with its score tables, publish markers and skip
  markers (\<^verbatim>\<open>mem-store.ts\<close>), and the tick of the builder (\<^verbatim>\<open>builder.ts\<close>). Methods that
  change the store take the store and return the new one; the clock, the calendar, the
  summarizer and the renderer are parameters, and the calendar of ECMAScript in a time
  zone is one calendar. The definitions come first, then the properties.
\<close>

section \<open>JavaScript numbers\<close>

text \<open>
  A JavaScript \<^verbatim>\<open>number\<close> is a double: a finite value, one of the two infinities, or NaN.
  The special values are kept, since the code tests for them (\<^verbatim>\<open>isNaN\<close>, comparisons that
  are false on NaN). A finite double is modelled by the real number it denotes, and the
  operations are exact: overflow and the sign of zero are not modelled, and the rounding
  of doubles is added in the last part of this section, for the one function whose
  contract depends on it.
\<close>

datatype jsnum = NaN | NegInf | Fin real | PosInf

text \<open>\<^verbatim>\<open>a < b\<close>: false as soon as one side is NaN.\<close>

fun js_lt :: "jsnum \<Rightarrow> jsnum \<Rightarrow> bool" where
  "js_lt NaN b = False"
| "js_lt a NaN = False"
| "js_lt NegInf NegInf = False"
| "js_lt NegInf b = True"
| "js_lt (Fin x) NegInf = False"
| "js_lt (Fin x) (Fin y) = (x < y)"
| "js_lt (Fin x) PosInf = True"
| "js_lt PosInf b = False"

text \<open>\<^verbatim>\<open>a > b\<close> and \<^verbatim>\<open>a <= b\<close>.\<close>

definition js_gt :: "jsnum \<Rightarrow> jsnum \<Rightarrow> bool" where
  "js_gt a b = js_lt b a"

definition js_le :: "jsnum \<Rightarrow> jsnum \<Rightarrow> bool" where
  "js_le a b = (a \<noteq> NaN \<and> b \<noteq> NaN \<and> \<not> js_lt b a)"

definition isNaN :: "jsnum \<Rightarrow> bool" where
  "isNaN a = (a = NaN)"

fun js_neg :: "jsnum \<Rightarrow> jsnum" where
  "js_neg NaN = NaN"
| "js_neg NegInf = PosInf"
| "js_neg (Fin x) = Fin (- x)"
| "js_neg PosInf = NegInf"

text \<open>\<^verbatim>\<open>a + b\<close>: the sum of opposite infinities is NaN.\<close>

fun js_add :: "jsnum \<Rightarrow> jsnum \<Rightarrow> jsnum" where
  "js_add NaN b = NaN"
| "js_add a NaN = NaN"
| "js_add PosInf NegInf = NaN"
| "js_add NegInf PosInf = NaN"
| "js_add PosInf b = PosInf"
| "js_add a PosInf = PosInf"
| "js_add NegInf b = NegInf"
| "js_add a NegInf = NegInf"
| "js_add (Fin x) (Fin y) = Fin (x + y)"

definition js_sub :: "jsnum \<Rightarrow> jsnum \<Rightarrow> jsnum" where
  "js_sub a b = js_add a (js_neg b)"

text \<open>
  \<^verbatim>\<open>a / b\<close>. An infinity over an infinity and zero over zero are NaN; a finite value over an
  infinity is zero; a non-zero value over zero is an infinity (zero is taken as \<^verbatim>\<open>+0\<close>).
\<close>

fun js_div :: "jsnum \<Rightarrow> jsnum \<Rightarrow> jsnum" where
  "js_div NaN b = NaN"
| "js_div a NaN = NaN"
| "js_div PosInf (Fin y) = (if 0 \<le> y then PosInf else NegInf)"
| "js_div NegInf (Fin y) = (if 0 \<le> y then NegInf else PosInf)"
| "js_div PosInf b = NaN"
| "js_div NegInf b = NaN"
| "js_div (Fin x) (Fin y) =
     (if y = 0 then (if x = 0 then NaN else if 0 < x then PosInf else NegInf)
      else Fin (x / y))"
| "js_div (Fin x) b = Fin 0"

text \<open>\<^verbatim>\<open>Math.max(a, b)\<close>: NaN as soon as one argument is NaN.\<close>

definition Math_max :: "jsnum \<Rightarrow> jsnum \<Rightarrow> jsnum" where
  "Math_max a b = (if a = NaN \<or> b = NaN then NaN else if js_lt a b then b else a)"

text \<open>
  \<^verbatim>\<open>Math.pow(b, 1.8)\<close>, the only exponent the code uses: a positive exponent that is not an
  integer, so a negative base gives NaN and both infinities give \<^verbatim>\<open>+Infinity\<close>.
\<close>

fun Math_pow_1_8 :: "jsnum \<Rightarrow> jsnum" where
  "Math_pow_1_8 NaN = NaN"
| "Math_pow_1_8 NegInf = PosInf"
| "Math_pow_1_8 PosInf = PosInf"
| "Math_pow_1_8 (Fin b) =
     (if b < 0 then NaN else if b = 0 then Fin 0 else Fin (b powr (18 / 10)))"

subsection \<open>Rounding\<close>



definition rne :: "real \<Rightarrow> int" where
  "rne y =
     (let f = \<lfloor>y\<rfloor>; d = y - real_of_int f
      in if d < 1 / 2 then f else if 1 / 2 < d then f + 1 else if even f then f else f + 1)"




section \<open>Data model (types.ts)\<close>

text \<open>
  \<^verbatim>\<open>createdAt\<close> is a \<^verbatim>\<open>Date\<close>: its time value is a whole number of milliseconds, or the
  date is invalid (\<open>None\<close>) and \<^verbatim>\<open>getTime()\<close> is NaN.
\<close>

record NewsItem =
  item_id :: string
  title :: string
  url :: string
  content :: string
  nodeName :: string
  nodeTitle :: string
  author :: string
  replies :: jsnum
  createdAt :: "int option"

record ScoredItem =
  item :: NewsItem
  score :: jsnum

definition getTime :: "int option \<Rightarrow> jsnum" where
  "getTime d = (case d of None \<Rightarrow> NaN | Some t \<Rightarrow> Fin (real_of_int t))"

section \<open>The in-memory store (mem-store.ts)\<close>

text \<open>
  A \<^verbatim>\<open>Map\<close> iterates in insertion order, and \<^verbatim>\<open>topItems\<close> sorts the entries of a score table
  with a stable sort, so a score table is an association list in insertion order. The
  other maps are only read by key, and are partial functions. \<^verbatim>\<open>Date.now()\<close> is a parameter
  \<open>now\<close> of every operation that reads the clock, in milliseconds.
\<close>

type_synonym score_table = "(string \<times> jsnum) list"

record MemStore =
  items :: "string \<rightharpoonup> NewsItem"
  periodScores :: "string \<rightharpoonup> score_table"
  published :: "string set"
  skipped :: "string \<rightharpoonup> int"

definition empty_store :: MemStore where
  "empty_store = \<lparr>items = Map.empty, periodScores = Map.empty, published = {}, skipped = Map.empty\<rparr>"

text \<open>\<^verbatim>\<open>scores.get(id)\<close> and \<^verbatim>\<open>scores.set(id, score)\<close> on a score table: \<^verbatim>\<open>set\<close> overwrites the
  value of a key in place and appends a new key at the end.\<close>

definition table_get :: "score_table \<Rightarrow> string \<Rightarrow> jsnum option" where
  "table_get t k = map_of t k"

fun table_set :: "string \<Rightarrow> jsnum \<Rightarrow> score_table \<Rightarrow> score_table" where
  "table_set k v [] = [(k, v)]"
| "table_set k v ((k', v') # t) =
     (if k' = k then (k, v) # t else (k', v') # table_set k v t)"

text \<open>
  \<^verbatim>\<open>addItem(period, item, score)\<close>: the item is stored under its id; the period's table is
  created when missing; the score is written only when it is greater than the stored one,
  a missing score counting as 0 (\<^verbatim>\<open>scores.get(item.id) ?? 0\<close>).
\<close>

definition addItem :: "string \<Rightarrow> NewsItem \<Rightarrow> jsnum \<Rightarrow> MemStore \<Rightarrow> MemStore" where
  "addItem period it sc st =
     (let scores = (case periodScores st period of None \<Rightarrow> [] | Some t \<Rightarrow> t);
          existing = (case table_get scores (item_id it) of None \<Rightarrow> Fin 0 | Some e \<Rightarrow> e);
          scores' = (if js_gt sc existing then table_set (item_id it) sc scores else scores)
      in st\<lparr>items := (items st)(item_id it \<mapsto> it),
            periodScores := (periodScores st)(period \<mapsto> scores')\<rparr>)"

text \<open>A sequence of \<^verbatim>\<open>addItem\<close> calls for one period, in order.\<close>

fun addItems :: "string \<Rightarrow> (NewsItem \<times> jsnum) list \<Rightarrow> MemStore \<Rightarrow> MemStore" where
  "addItems period [] st = st"
| "addItems period ((it, sc) # calls) st = addItems period calls (addItem period it sc st)"

text \<open>The score stored for a period and an id, if any.\<close>

definition stored_score :: "MemStore \<Rightarrow> string \<Rightarrow> string \<Rightarrow> jsnum option" where
  "stored_score st period k =
     (case periodScores st period of None \<Rightarrow> None | Some t \<Rightarrow> table_get t k)"

text \<open>
  \<^verbatim>\<open>Array.prototype.sort(cmp)\<close> is stable, and moves \<open>a\<close> behind \<open>b\<close> only when
  \<^verbatim>\<open>cmp(a, b) > 0\<close>; a NaN from the comparator counts as 0. It is modelled by the stable
  insertion sort. (With a comparator that is not consistent the order of the result is
  left to the engine; the comparators of this code are consistent on scores without NaN.)
\<close>

fun sort_insert :: "('a \<Rightarrow> 'a \<Rightarrow> jsnum) \<Rightarrow> 'a \<Rightarrow> 'a list \<Rightarrow> 'a list" where
  "sort_insert cmp x [] = [x]"
| "sort_insert cmp x (y # ys) =
     (if js_gt (cmp x y) (Fin 0) then y # sort_insert cmp x ys else x # y # ys)"

definition js_sort :: "('a \<Rightarrow> 'a \<Rightarrow> jsnum) \<Rightarrow> 'a list \<Rightarrow> 'a list" where
  "js_sort cmp xs = foldr (sort_insert cmp) xs []"

text \<open>
  \<^verbatim>\<open>topItems(period, n)\<close>: the entries of the period's table, sorted by descending score
  (\<^verbatim>\<open>(a, b) => b.score - a.score\<close>), cut to the first \<open>n\<close> (\<^verbatim>\<open>slice(0, n)\<close>; \<open>n\<close> is a count,
  a natural number), and then joined with the item map: an entry whose id has no item is
  dropped.
\<close>

definition by_score_desc :: "jsnum \<Rightarrow> jsnum \<Rightarrow> jsnum" where
  "by_score_desc a b = js_sub b a"

definition top_entries :: "score_table \<Rightarrow> nat \<Rightarrow> (string \<times> jsnum) list" where
  "top_entries scores n = take n (js_sort (\<lambda>a b. by_score_desc (snd a) (snd b)) scores)"

fun join_items :: "(string \<rightharpoonup> NewsItem) \<Rightarrow> (string \<times> jsnum) list \<Rightarrow> ScoredItem list" where
  "join_items m [] = []"
| "join_items m ((k, sc) # es) =
     (case m k of
        None \<Rightarrow> join_items m es
      | Some it \<Rightarrow> \<lparr>item = it, score = sc\<rparr> # join_items m es)"

definition topItems :: "string \<Rightarrow> nat \<Rightarrow> MemStore \<Rightarrow> ScoredItem list" where
  "topItems period n st =
     (case periodScores st period of
        None \<Rightarrow> []
      | Some scores \<Rightarrow> join_items (items st) (top_entries scores n))"

text \<open>The publish markers: the set holds the keys \<^verbatim>\<open>`${channel}:${period}`\<close>.\<close>

definition marker_key :: "string \<Rightarrow> string \<Rightarrow> string" where
  "marker_key channel x = channel @ '':'' @ x"

definition isPublished :: "string \<Rightarrow> string \<Rightarrow> MemStore \<Rightarrow> bool" where
  "isPublished channel period st = (marker_key channel period \<in> published st)"

definition markPublished :: "string \<Rightarrow> string \<Rightarrow> MemStore \<Rightarrow> MemStore" where
  "markPublished channel period st = st\<lparr>published := insert (marker_key channel period) (published st)\<rparr>"

text \<open>
  The skip markers: \<^verbatim>\<open>isSkipped\<close> reads the clock, and deletes the entry it finds expired
  (\<^verbatim>\<open>Date.now() > expiry\<close>), so it returns the store as well. \<^verbatim>\<open>markSkipped\<close> stores
  \<^verbatim>\<open>Date.now() + ttlMs\<close>; the time to live is a duration, a natural number of milliseconds.
\<close>

definition isSkipped :: "int \<Rightarrow> string \<Rightarrow> string \<Rightarrow> MemStore \<Rightarrow> bool \<times> MemStore" where
  "isSkipped now channel k st =
     (let key = marker_key channel k in
      case skipped st key of
        None \<Rightarrow> (False, st)
      | Some expiry \<Rightarrow>
          if now > expiry then (False, st\<lparr>skipped := (skipped st)(key := None)\<rparr>)
          else (True, st))"

definition markSkipped :: "int \<Rightarrow> string \<Rightarrow> string \<Rightarrow> nat \<Rightarrow> MemStore \<Rightarrow> MemStore" where
  "markSkipped now channel k ttlMs st =
     st\<lparr>skipped := (skipped st)(marker_key channel k \<mapsto> now + int ttlMs)\<rparr>"

text \<open>
  The built-ins of \<^verbatim>\<open>Date\<close> that turn an instant into a calendar day are not code of the
  repository; they are parameters: \<open>toISODate t\<close> is
  \<^verbatim>\<open>new Date(t).toISOString().slice(0, 10)\<close>, and \<open>sevenDaysBefore t\<close> is the instant that
  \<^verbatim>\<open>d.setDate(d.getDate() - 7)\<close> gives from \<open>t\<close>.
\<close>

record Dates =
  toISODate :: "int \<Rightarrow> string"
  sevenDaysBefore :: "int \<Rightarrow> int"

text \<open>
  \<^verbatim>\<open>gc()\<close>: every skip marker with \<^verbatim>\<open>now > expiry\<close> is deleted, then every score table whose
  period is before the cutoff day, by the order of strings (\<^verbatim>\<open>period < cutoffStr\<close>).
\<close>

definition cutoffStr :: "Dates \<Rightarrow> int \<Rightarrow> string" where
  "cutoffStr dates now = toISODate dates (sevenDaysBefore dates now)"

definition gc :: "Dates \<Rightarrow> int \<Rightarrow> MemStore \<Rightarrow> MemStore" where
  "gc dates now st =
     st\<lparr>skipped := (\<lambda>key. case skipped st key of
                              None \<Rightarrow> None
                            | Some expiry \<Rightarrow> if now > expiry then None else Some expiry),
        periodScores := (\<lambda>period. if period < cutoffStr dates now then None
                                   else periodScores st period)\<rparr>"

text \<open>
  The built-ins themselves, as ECMAScript defines them for time values in milliseconds
  (\<^verbatim>\<open>TimeClip\<close> apart: the instants here are far from the ends of the range).
  \<open>civil_from_days d\<close> is the year, month and day of the month of the day number \<open>d\<close>
  (\<^verbatim>\<open>YearFromTime\<close>, \<^verbatim>\<open>MonthFromTime\<close> + 1 and \<^verbatim>\<open>DateFromTime\<close>), by the closed form of the
  proleptic Gregorian calendar over eras of 400 years that begin on March 1st;
  \<^verbatim>\<open>toISOString\<close> writes the date of UTC with a year of four digits, or of six digits and
  a sign outside 0..9999, and \<^verbatim>\<open>slice(0, 10)\<close> keeps ten characters.
\<close>

definition msPerDay :: int where
  "msPerDay = 86400000"

definition civil_from_days :: "int \<Rightarrow> int \<times> int \<times> int" where
  "civil_from_days d =
     (let z = d + 719468;
          era = z div 146097;
          doe = z mod 146097;
          yoe = (doe - doe div 1460 + doe div 36524 - doe div 146096) div 365;
          doy = doe - (365 * yoe + yoe div 4 - yoe div 100);
          mp = (5 * doy + 2) div 153;
          dd = doy - (153 * mp + 2) div 5 + 1;
          m = (if mp < 10 then mp + 3 else mp - 9);
          y = yoe + era * 400 + (if m \<le> 2 then 1 else 0)
      in (y, m, dd))"

definition digit :: "int \<Rightarrow> char" where
  "digit n = ''0123456789'' ! nat (n mod 10)"

definition pad2 :: "int \<Rightarrow> string" where
  "pad2 n = [digit (n div 10), digit n]"

definition pad4 :: "int \<Rightarrow> string" where
  "pad4 n = [digit (n div 1000), digit (n div 100), digit (n div 10), digit n]"

definition pad6 :: "int \<Rightarrow> string" where
  "pad6 n = [digit (n div 100000), digit (n div 10000)] @ pad4 n"

definition iso_date_of_day :: "int \<Rightarrow> string" where
  "iso_date_of_day d =
     (case civil_from_days d of (y, m, dd) \<Rightarrow>
        take 10 ((if 0 \<le> y \<and> y \<le> 9999 then pad4 y
                  else (if y < 0 then ''-'' else ''+'') @ pad6 \<bar>y\<bar>)
                 @ ''-'' @ pad2 m @ ''-'' @ pad2 dd))"

text \<open>\<^verbatim>\<open>new Date(t).toISOString().slice(0, 10)\<close>: the day of \<open>t\<close> is \<^verbatim>\<open>Day(t) = floor(t / msPerDay)\<close>.\<close>

definition ISODate :: "int \<Rightarrow> string" where
  "ISODate t = iso_date_of_day (t div msPerDay)"

text \<open>
  A time zone is its offset \<^verbatim>\<open>LocalTZA(t, isUTC)\<close>, in milliseconds: at the instant \<open>t\<close> when
  \<open>isUTC\<close>, at the local time \<open>t\<close> otherwise. \<^verbatim>\<open>LocalTime(t) = t + LocalTZA(t, true)\<close> and
  \<^verbatim>\<open>UTC(t) = t - LocalTZA(t, false)\<close>.

  \<^verbatim>\<open>d.setDate(d.getDate() - 7)\<close> on the instant \<open>t\<close>: with \<open>lt = LocalTime(t)\<close>, the new time value
  is \<^verbatim>\<open>UTC(MakeDate(MakeDay(YearFromTime(lt), MonthFromTime(lt), DateFromTime(lt) - 7),
  TimeWithinDay(lt)))\<close>; the day that \<^verbatim>\<open>MakeDay\<close> gives is \<open>Day(lt) - 7\<close>, so the local time is
  \<open>lt - 7 * msPerDay\<close>: the same time of the clock, seven days of the local calendar before.
\<close>

type_synonym zone = "int \<Rightarrow> bool \<Rightarrow> int"

definition LocalTime :: "zone \<Rightarrow> int \<Rightarrow> int" where
  "LocalTime tz t = t + tz t True"

definition UTC_of_local :: "zone \<Rightarrow> int \<Rightarrow> int" where
  "UTC_of_local tz t = t - tz t False"

definition setDate_minus7 :: "zone \<Rightarrow> int \<Rightarrow> int" where
  "setDate_minus7 tz t = UTC_of_local tz (LocalTime tz t - 7 * msPerDay)"

definition js_dates :: "zone \<Rightarrow> Dates" where
  "js_dates tz = \<lparr>toISODate = ISODate, sevenDaysBefore = setDate_minus7 tz\<rparr>"

text \<open>
  A zone without a change of clock, and the zone \<^verbatim>\<open>America/New_York\<close> between its changes
  of clock of November 2023 and November 2024: on 2024-03-10 its clock went from 02:00 to
  03:00 (at 07:00 UTC, 1710054000000 ms), five hours behind UTC before, four hours after; a
  local time that the change skips is read with the offset before the change.
\<close>

definition fixed_zone :: "int \<Rightarrow> zone" where
  "fixed_zone offset = (\<lambda>t isUTC. offset)"

definition new_york :: zone where
  "new_york = (\<lambda>t isUTC.
     if isUTC then (if t < 1710054000000 then - 18000000 else - 14400000)
     else (if t < 1710039600000 then - 18000000 else - 14400000))"

section \<open>Scoring and ranking (scorer.ts)\<close>

text \<open>\<^verbatim>\<open>computeScore(item)\<close>, with \<^verbatim>\<open>Date.now()\<close> as the parameter \<open>now\<close>.\<close>

definition hoursSincePost :: "int \<Rightarrow> NewsItem \<Rightarrow> jsnum" where
  "hoursSincePost now it =
     js_div (js_sub (Fin (real_of_int now)) (getTime (createdAt it))) (Fin (1000 * 60 * 60))"

definition raw_score :: "int \<Rightarrow> NewsItem \<Rightarrow> jsnum" where
  "raw_score now it =
     (let hours = Math_max (hoursSincePost now it) (Fin 0)
      in js_div (js_sub (replies it) (Fin 1)) (Math_pow_1_8 (js_add hours (Fin 2))))"

definition computeScore :: "int \<Rightarrow> NewsItem \<Rightarrow> jsnum" where
  "computeScore now it =
     (if js_le (replies it) (Fin 0) then Fin 0
      else let sc = raw_score now it
           in if isNaN sc \<or> js_lt sc (Fin 0) then Fin 0 else sc)"


text \<open>
  \<^verbatim>\<open>String.prototype.toLowerCase\<close>, on the letters of ASCII (the names of nodes are ASCII).
\<close>

definition lower_char :: "char \<Rightarrow> char" where
  "lower_char c =
     (case map_of (zip ''ABCDEFGHIJKLMNOPQRSTUVWXYZ'' ''abcdefghijklmnopqrstuvwxyz'') c of
        None \<Rightarrow> c
      | Some l \<Rightarrow> l)"

definition toLowerCase :: "string \<Rightarrow> string" where
  "toLowerCase s = map lower_char s"

text \<open>
  The first loop of \<^verbatim>\<open>scoreAndRank\<close>: an item is passed over when its id was seen or is to
  be skipped, or when its node is excluded; otherwise its id is seen from then on and the
  item is kept.
\<close>

fun unique_loop :: "string set \<Rightarrow> string set \<Rightarrow> string set \<Rightarrow> NewsItem list \<Rightarrow> NewsItem list" where
  "unique_loop skipIds excludeSet seen [] = []"
| "unique_loop skipIds excludeSet seen (it # its) =
     (if item_id it \<in> seen \<or> item_id it \<in> skipIds then unique_loop skipIds excludeSet seen its
      else if toLowerCase (nodeName it) \<in> excludeSet then unique_loop skipIds excludeSet seen its
      else it # unique_loop skipIds excludeSet (insert (item_id it) seen) its)"

definition scored_items :: "int \<Rightarrow> NewsItem list \<Rightarrow> ScoredItem list" where
  "scored_items now unique =
     filter (\<lambda>s. js_gt (score s) (Fin 0))
       (map (\<lambda>it. \<lparr>item = it, score = computeScore now it\<rparr>) unique)"

text \<open>
  \<^verbatim>\<open>scoreAndRank(items, topN, skipIds, excludeNodes)\<close>, with \<^verbatim>\<open>Date.now()\<close> as the parameter
  \<open>now\<close>: the loop, the scores, the filter, the sort and \<^verbatim>\<open>slice(0, topN)\<close>, where \<open>topN\<close>
  is a count, a natural number.
\<close>

definition scoreAndRank ::
  "int \<Rightarrow> NewsItem list \<Rightarrow> nat \<Rightarrow> string set \<Rightarrow> string list \<Rightarrow> ScoredItem list" where
  "scoreAndRank now its topN skipIds excludeNodes =
     (let excludeSet = set (map toLowerCase excludeNodes);
          unique = unique_loop skipIds excludeSet {} its;
          scored = scored_items now unique
      in take topN (js_sort (\<lambda>a b. by_score_desc (score a) (score b)) scored))"

subsection \<open>scoreAndRank on arrays in a store\<close>

text \<open>
  The arrays of \<^verbatim>\<open>scoreAndRank\<close> are objects that can be written in place
  (\<^verbatim>\<open>unique.push\<close>, \<^verbatim>\<open>scored.sort\<close>), and the entries of the result point to the items of
  the input. The store is a list of cells, an address is an index: a cell is an item, an
  array of addresses of items, or an array of \<^verbatim>\<open>ScoredItem\<close>s, each the address of its item
  with its score (the objects \<^verbatim>\<open>{ item, score }\<close> are new and never written, so they are
  kept as values). A new object takes the next address.
\<close>

datatype cell = ItemObj NewsItem | ItemArray "nat list" | ScoredArray "(nat \<times> jsnum) list"

type_synonym heap = "cell list"

definition alloc :: "cell \<Rightarrow> heap \<Rightarrow> nat \<times> heap" where
  "alloc c h = (length h, h @ [c])"

text \<open>The item at an address, and the items that an array of items points to, each with its
  address; \<open>None\<close> when the cells are not of these kinds, which the types of the source
  exclude.\<close>

definition item_at :: "heap \<Rightarrow> nat \<Rightarrow> NewsItem option" where
  "item_at h r =
     (if r < length h then (case h ! r of ItemObj it \<Rightarrow> Some it | _ \<Rightarrow> None) else None)"

fun read_items :: "heap \<Rightarrow> nat list \<Rightarrow> (nat \<times> NewsItem) list option" where
  "read_items h [] = Some []"
| "read_items h (r # rs) =
     (case item_at h r of
        None \<Rightarrow> None
      | Some it \<Rightarrow> (case read_items h rs of None \<Rightarrow> None | Some ps \<Rightarrow> Some ((r, it) # ps)))"

definition items_at :: "heap \<Rightarrow> nat \<Rightarrow> (nat \<times> NewsItem) list option" where
  "items_at h a =
     (if a < length h then (case h ! a of ItemArray rs \<Rightarrow> read_items h rs | _ \<Rightarrow> None) else None)"

text \<open>The \<^verbatim>\<open>ScoredItem\<close>s of an array, with the items that they point to.\<close>

fun read_scored :: "heap \<Rightarrow> (nat \<times> jsnum) list \<Rightarrow> ScoredItem list option" where
  "read_scored h [] = Some []"
| "read_scored h (e # es) =
     (case item_at h (fst e) of
        None \<Rightarrow> None
      | Some it \<Rightarrow> (case read_scored h es of
                      None \<Rightarrow> None
                    | Some xs \<Rightarrow> Some (\<lparr>item = it, score = snd e\<rparr> # xs)))"

definition scored_at :: "heap \<Rightarrow> nat \<Rightarrow> ScoredItem list option" where
  "scored_at h a =
     (if a < length h then (case h ! a of ScoredArray es \<Rightarrow> read_scored h es | _ \<Rightarrow> None) else None)"

definition elements :: "heap \<Rightarrow> nat \<Rightarrow> (nat \<times> jsnum) list" where
  "elements h a = (case h ! a of ScoredArray es \<Rightarrow> es | _ \<Rightarrow> [])"

text \<open>The first loop, on the addresses of the items with the items read through them: the
  loop reads \<^verbatim>\<open>item.id\<close> and \<^verbatim>\<open>item.nodeName\<close> and pushes the address.\<close>

fun unique_loop_refs ::
  "string set \<Rightarrow> string set \<Rightarrow> string set \<Rightarrow> (nat \<times> NewsItem) list \<Rightarrow> (nat \<times> NewsItem) list" where
  "unique_loop_refs skipIds excludeSet seen [] = []"
| "unique_loop_refs skipIds excludeSet seen (p # ps) =
     (if item_id (snd p) \<in> seen \<or> item_id (snd p) \<in> skipIds
      then unique_loop_refs skipIds excludeSet seen ps
      else if toLowerCase (nodeName (snd p)) \<in> excludeSet
      then unique_loop_refs skipIds excludeSet seen ps
      else p # unique_loop_refs skipIds excludeSet (insert (item_id (snd p)) seen) ps)"

text \<open>
  \<^verbatim>\<open>scoreAndRank(items, topN, skipIds, excludeNodes)\<close> on the store: \<open>unique\<close> is a new array,
  \<^verbatim>\<open>map\<close> and \<^verbatim>\<open>filter\<close> return new arrays, \<^verbatim>\<open>sort\<close> writes the array \<open>scored\<close> in place and
  \<^verbatim>\<open>slice\<close> returns a new array, whose address is the result.
\<close>

definition scoreAndRank_heap ::
  "int \<Rightarrow> nat \<Rightarrow> nat \<Rightarrow> string set \<Rightarrow> string list \<Rightarrow> heap \<Rightarrow> (nat \<times> heap) option" where
  "scoreAndRank_heap now items_ref topN skipIds excludeNodes h =
     (case items_at h items_ref of
        None \<Rightarrow> None
      | Some ps \<Rightarrow>
          (let excludeSet = set (map toLowerCase excludeNodes);
               kept = unique_loop_refs skipIds excludeSet {} ps;
               (unique, h1) = alloc (ItemArray (map fst kept)) h;
               (mapped, h2) = alloc (ScoredArray (map (\<lambda>p. (fst p, computeScore now (snd p))) kept)) h1;
               (scored, h3) = alloc (ScoredArray (filter (\<lambda>e. js_gt (snd e) (Fin 0)) (elements h2 mapped))) h2;
               h4 = h3[scored := ScoredArray (js_sort (\<lambda>a b. by_score_desc (snd a) (snd b)) (elements h3 scored))];
               (result, h5) = alloc (ScoredArray (take topN (elements h4 scored))) h4
           in Some (result, h5)))"

section \<open>The builder (builder.ts)\<close>

text \<open>The fields of \<^verbatim>\<open>AppConfig\<close> that the builder reads; \<open>topN\<close> and \<open>skipHours\<close> are counts.\<close>

record AppConfig =
  ai_provider :: string
  ai_apiKey :: string
  ai_model :: string
  ai_baseUrl :: string
  excludeNodes :: "string list"
  topN :: nat
  skipHours :: nat
  template_title :: string

record SummarizedItem = ScoredItem +
  description :: string

text \<open>
  The collaborators of a tick are parameters: the summarizer (built from the configuration,
  it calls a language model over the network) and the renderer, besides the calendar.
  Every call of a tick reads the same clock value \<open>now\<close>.
\<close>

record Collaborators =
  dates :: Dates
  summarizeItem :: "AppConfig \<Rightarrow> string \<Rightarrow> string \<Rightarrow> string \<Rightarrow> string"
  summarizePost :: "AppConfig \<Rightarrow> NewsItem list \<Rightarrow> string \<Rightarrow> string"
  renderMarkdown :: "string \<Rightarrow> string \<Rightarrow> string \<Rightarrow> SummarizedItem list \<Rightarrow> string"
  expandVars :: "string \<Rightarrow> string \<Rightarrow> string"

text \<open>
  What a tick does besides reading and writing the maps of the store, in order: the
  directory and the file of the digest, the sweep of the store and the snapshot that
  \<^verbatim>\<open>persist()\<close> writes (the four maps of the store, as they are then). Lines printed to the
  console are left out.
\<close>

datatype action =
    MkdirSync string
  | WriteFileSync string string
  | StoreGc
  | StorePersist MemStore

text \<open>\<^verbatim>\<open>candidates.filter((c) => !this.store.isSkipped(channel, c.item.id))\<close>: each test may
  delete an expired marker, so the store is passed along.\<close>

fun filter_not_skipped ::
  "int \<Rightarrow> string \<Rightarrow> ScoredItem list \<Rightarrow> MemStore \<Rightarrow> ScoredItem list \<times> MemStore" where
  "filter_not_skipped now channel [] st = ([], st)"
| "filter_not_skipped now channel (c # cs) st =
     (let (sk, st1) = isSkipped now channel (item_id (item c)) st;
          (rest, st2) = filter_not_skipped now channel cs st1
      in (if sk then rest else c # rest, st2))"

text \<open>The candidates of a tick that is not yet published: the pool read from the store,
  and the three filters of \<^verbatim>\<open>runOnce\<close>.\<close>

definition channel_name :: string where
  "channel_name = ''v2ex-digest''"

definition minItems :: nat where
  "minItems = 5"

definition candidates ::
  "AppConfig \<Rightarrow> int \<Rightarrow> string \<Rightarrow> MemStore \<Rightarrow> ScoredItem list \<times> MemStore" where
  "candidates config now period st =
     (let fetchN = topN config * 5;
          pool = topItems period fetchN st;
          excludeSet = set (map toLowerCase (excludeNodes config));
          c1 = filter (\<lambda>c. toLowerCase (nodeName (item c)) \<notin> excludeSet) pool;
          (c2, st1) = filter_not_skipped now channel_name c1 st;
          c3 = filter (\<lambda>c. js_gt (replies (item c)) (Fin 0) \<and> js_gt (score c) (Fin 0)) c2
      in (c3, st1))"

definition default_title :: string where
  "default_title =
     ''V2EX '' @ [CHR 0xE6, CHR 0x97, CHR 0xA5, CHR 0xE6, CHR 0x8A, CHR 0xA5] @ '' {date}''"

definition summarize ::
  "Collaborators \<Rightarrow> AppConfig \<Rightarrow> ScoredItem list \<Rightarrow> SummarizedItem list \<times> string" where
  "summarize co config chosen =
     (if ai_apiKey config \<noteq> []
      then (map (\<lambda>c. \<lparr>item = item c, score = score c,
                       description = summarizeItem co config (title (item c)) (content (item c)) ''Chinese''\<rparr>) chosen,
            summarizePost co config (map item chosen) ''Chinese'')
      else (map (\<lambda>c. \<lparr>item = item c, score = score c, description = []\<rparr>) chosen, []))"

text \<open>
  \<^verbatim>\<open>runOnce()\<close>: the path of the digest or \<open>None\<close> (\<^verbatim>\<open>null\<close>), the store after the tick, and
  the actions of the tick.
\<close>

definition runOnce ::
  "Collaborators \<Rightarrow> AppConfig \<Rightarrow> int \<Rightarrow> MemStore \<Rightarrow> string option \<times> MemStore \<times> action list" where
  "runOnce co config now st =
     (let period = toISODate (dates co) now in
      if isPublished channel_name period st then (None, st, [])
      else
        let (cands, st1) = candidates config now period st in
        if length cands < minItems then (None, st1, [])
        else
          let chosen = take (topN config) cands;
              (summarized, postSummary) = summarize co config chosen;
              ttl = expandVars co
                (if template_title config \<noteq> [] then template_title config else default_title) period;
              md = renderMarkdown co ttl period postSummary summarized;
              outPath = ''out/daily-'' @ period @ ''.md'';
              st2 = markPublished channel_name period st1;
              skipMs = skipHours config * 60 * 60 * 1000;
              st3 = fold (\<lambda>c. markSkipped now channel_name (item_id (item c)) skipMs) chosen st2;
              st4 = gc (dates co) now st3
          in (Some outPath, st4,
              [MkdirSync ''./out'', WriteFileSync outPath md, StoreGc, StorePersist st4]))"

section \<open>Loading the snapshot (mem-store.ts, load)\<close>

text \<open>
  \<^verbatim>\<open>load()\<close> runs on what \<^verbatim>\<open>JSON.parse\<close> returns, before any typed code: the casts to
  \<^verbatim>\<open>any\<close> check nothing, and the maps receive whatever the file holds. So the values are
  the values of JSON (and the dates that \<^verbatim>\<open>load\<close> makes), and the store that \<^verbatim>\<open>load\<close> fills
  is a store of such values. The properties of an object are listed in the order of
  \<^verbatim>\<open>Object.entries\<close>.
\<close>

datatype json =
    JNull
  | JBool bool
  | JNum jsnum
  | JStr string
  | JArr "json list"
  | JObj "(string \<times> json) list"
  | JDate "int option"

datatype error = SyntaxError | TypeError

text \<open>What \<^verbatim>\<open>existsSync\<close> and \<^verbatim>\<open>JSON.parse(readFileSync(...))\<close> make of the file.\<close>

datatype snapshot_file = NoFile | NotJson | Json json

record RawStore =
  raw_items :: "(string \<times> json) list"
  raw_periodScores :: "(string \<times> (string \<times> json) list) list"
  raw_published :: "json list"
  raw_skipped :: "(string \<times> json) list"

definition empty_raw :: RawStore where
  "empty_raw = \<lparr>raw_items = [], raw_periodScores = [], raw_published = [], raw_skipped = []\<rparr>"

text \<open>\<^verbatim>\<open>map.set(k, v)\<close> on a map in insertion order.\<close>

fun map_set :: "string \<Rightarrow> 'v \<Rightarrow> (string \<times> 'v) list \<Rightarrow> (string \<times> 'v) list" where
  "map_set k v [] = [(k, v)]"
| "map_set k v ((k', v') # m) = (if k' = k then (k, v) # m else (k', v') # map_set k v m)"

text \<open>The property \<open>k\<close> of a parsed value (\<open>None\<close> is \<^verbatim>\<open>undefined\<close>); reading a property of
  \<^verbatim>\<open>null\<close> throws. A number, a string, a boolean or an array has none of the properties
  that \<^verbatim>\<open>load\<close> reads.\<close>

definition get_prop :: "json \<Rightarrow> string \<Rightarrow> error + json option" where
  "get_prop v k =
     (case v of
        JNull \<Rightarrow> Inl TypeError
      | JObj props \<Rightarrow> Inr (map_of props k)
      | _ \<Rightarrow> Inr None)"

text \<open>The test \<^verbatim>\<open>if (v)\<close>: \<^verbatim>\<open>undefined\<close>, \<^verbatim>\<open>null\<close>, \<^verbatim>\<open>false\<close>, 0, NaN and the empty string
  are false.\<close>

definition truthy :: "json option \<Rightarrow> bool" where
  "truthy v =
     (case v of
        None \<Rightarrow> False
      | Some JNull \<Rightarrow> False
      | Some (JBool b) \<Rightarrow> b
      | Some (JNum n) \<Rightarrow> n \<noteq> NaN \<and> n \<noteq> Fin 0
      | Some (JStr s) \<Rightarrow> s \<noteq> []
      | Some _ \<Rightarrow> True)"

text \<open>Decimal digits of an index, for the keys of an array.\<close>

fun show_nat :: "nat \<Rightarrow> string" where
  "show_nat n =
     (if n < 10 then [char_of (48 + n)]
      else show_nat (n div 10) @ [char_of (48 + n mod 10)])"

text \<open>\<^verbatim>\<open>Object.entries(v)\<close>: the properties of an object, the elements of an array or the
  characters of a string under their indices, nothing for a number, a boolean or a date;
  it throws on \<^verbatim>\<open>null\<close> and \<^verbatim>\<open>undefined\<close>.\<close>

definition Object_entries :: "json option \<Rightarrow> error + (string \<times> json) list" where
  "Object_entries v =
     (case v of
        None \<Rightarrow> Inl TypeError
      | Some JNull \<Rightarrow> Inl TypeError
      | Some (JObj props) \<Rightarrow> Inr props
      | Some (JArr xs) \<Rightarrow> Inr (map (\<lambda>i. (show_nat i, xs ! i)) [0..<length xs])
      | Some (JStr s) \<Rightarrow> Inr (map (\<lambda>i. (show_nat i, JStr [s ! i])) [0..<length s])
      | Some _ \<Rightarrow> Inr [])"

text \<open>The values that \<^verbatim>\<open>for (const key of v)\<close> runs over: the elements of an array, the
  characters of a string; any other parsed value is not iterable.\<close>

definition iterate :: "json option \<Rightarrow> error + json list" where
  "iterate v =
     (case v of
        Some (JArr xs) \<Rightarrow> Inr xs
      | Some (JStr s) \<Rightarrow> Inr (map (\<lambda>c. JStr [c]) s)
      | _ \<Rightarrow> Inl TypeError)"

text \<open>
  \<^verbatim>\<open>item.createdAt = new Date(item.createdAt)\<close> throws when the item is \<^verbatim>\<open>null\<close>, and when
  it is a number, a string or a boolean (the module is in strict mode); \<^verbatim>\<open>new Date\<close> is the
  parameter \<open>newDate\<close>. (On an array the assignment adds a property, which the model of
  arrays does not keep.)
\<close>

definition set_createdAt :: "(json option \<Rightarrow> int option) \<Rightarrow> json \<Rightarrow> error + json" where
  "set_createdAt newDate v =
     (case v of
        JObj props \<Rightarrow>
          Inr (JObj (map_set ''createdAt'' (JDate (newDate (map_of props ''createdAt''))) props))
      | JArr xs \<Rightarrow> Inr (JArr xs)
      | JDate d \<Rightarrow> Inr (JDate d)
      | _ \<Rightarrow> Inl TypeError)"

text \<open>
  A section of the \<^verbatim>\<open>try\<close> block gives the store as it leaves it, and the exception if it
  threw: an exception leaves a loop with the entries stored so far. The next section runs
  only after a section that did not throw.
\<close>

type_synonym loaded = "RawStore \<times> error option"

definition and_then :: "loaded \<Rightarrow> (RawStore \<Rightarrow> loaded) \<Rightarrow> loaded" where
  "and_then r f = (case r of (st, Some e) \<Rightarrow> (st, Some e) | (st, None) \<Rightarrow> f st)"

fun items_loop :: "(json option \<Rightarrow> int option) \<Rightarrow> (string \<times> json) list \<Rightarrow> RawStore \<Rightarrow> loaded" where
  "items_loop newDate [] st = (st, None)"
| "items_loop newDate ((k, v) # es) st =
     (case set_createdAt newDate v of
        Inl e \<Rightarrow> (st, Some e)
      | Inr v' \<Rightarrow> items_loop newDate es (st\<lparr>raw_items := map_set k v' (raw_items st)\<rparr>))"

definition load_items :: "(json option \<Rightarrow> int option) \<Rightarrow> json \<Rightarrow> RawStore \<Rightarrow> loaded" where
  "load_items newDate raw st =
     (case get_prop raw ''items'' of
        Inl e \<Rightarrow> (st, Some e)
      | Inr v \<Rightarrow>
          if truthy v
          then (case Object_entries v of
                  Inl e \<Rightarrow> (st, Some e)
                | Inr es \<Rightarrow> items_loop newDate es st)
          else (st, None))"

text \<open>\<^verbatim>\<open>this.periodScores.set(period, new Map(Object.entries(scores)))\<close>.\<close>

fun periodScores_loop :: "(string \<times> json) list \<Rightarrow> RawStore \<Rightarrow> loaded" where
  "periodScores_loop [] st = (st, None)"
| "periodScores_loop ((period, scores) # es) st =
     (case Object_entries (Some scores) of
        Inl e \<Rightarrow> (st, Some e)
      | Inr entries \<Rightarrow>
          periodScores_loop es
            (st\<lparr>raw_periodScores :=
                  map_set period (fold (\<lambda>(k, v). map_set k v) entries []) (raw_periodScores st)\<rparr>))"

definition load_periodScores :: "json \<Rightarrow> RawStore \<Rightarrow> loaded" where
  "load_periodScores raw st =
     (case get_prop raw ''periodScores'' of
        Inl e \<Rightarrow> (st, Some e)
      | Inr v \<Rightarrow>
          if truthy v
          then (case Object_entries v of
                  Inl e \<Rightarrow> (st, Some e)
                | Inr es \<Rightarrow> periodScores_loop es st)
          else (st, None))"

text \<open>\<^verbatim>\<open>published.add(key)\<close>: a set in insertion order. (Keys are compared as values here;
  the engine compares two objects by identity. The keys that \<^verbatim>\<open>persist\<close> writes are strings.)\<close>

definition set_add :: "json \<Rightarrow> json list \<Rightarrow> json list" where
  "set_add v xs = (if v \<in> set xs then xs else xs @ [v])"

definition load_published :: "json \<Rightarrow> RawStore \<Rightarrow> loaded" where
  "load_published raw st =
     (case get_prop raw ''published'' of
        Inl e \<Rightarrow> (st, Some e)
      | Inr v \<Rightarrow>
          if truthy v
          then (case iterate v of
                  Inl e \<Rightarrow> (st, Some e)
                | Inr keys \<Rightarrow> (st\<lparr>raw_published := fold set_add keys (raw_published st)\<rparr>, None))
          else (st, None))"

definition load_skipped :: "json \<Rightarrow> RawStore \<Rightarrow> loaded" where
  "load_skipped raw st =
     (case get_prop raw ''skipped'' of
        Inl e \<Rightarrow> (st, Some e)
      | Inr v \<Rightarrow>
          if truthy v
          then (case Object_entries v of
                  Inl e \<Rightarrow> (st, Some e)
                | Inr es \<Rightarrow>
                    (st\<lparr>raw_skipped := fold (\<lambda>(k, v). map_set k v) es (raw_skipped st)\<rparr>, None))
          else (st, None))"

text \<open>
  \<^verbatim>\<open>load()\<close>: nothing when the file is missing; otherwise the \<^verbatim>\<open>try\<close> block, whose
  \<^verbatim>\<open>catch\<close> prints a warning and does nothing else, so the store stays as the block left
  it. The constructor calls \<^verbatim>\<open>load\<close> on the empty store.
\<close>

definition try_block :: "(json option \<Rightarrow> int option) \<Rightarrow> snapshot_file \<Rightarrow> RawStore \<Rightarrow> loaded" where
  "try_block newDate file st =
     (case file of
        NoFile \<Rightarrow> (st, None)
      | NotJson \<Rightarrow> (st, Some SyntaxError)
      | Json raw \<Rightarrow>
          and_then (and_then (and_then (load_items newDate raw st)
            (load_periodScores raw)) (load_published raw)) (load_skipped raw))"

definition load :: "(json option \<Rightarrow> int option) \<Rightarrow> snapshot_file \<Rightarrow> RawStore \<Rightarrow> RawStore" where
  "load newDate file st =
     (case file of
        NoFile \<Rightarrow> st
      | _ \<Rightarrow> fst (try_block newDate file st))"

section \<open>Notions used in the statements\<close>

text \<open>An item with the given id, node, number of replies and date, for the examples.\<close>

definition mk_item :: "string \<Rightarrow> string \<Rightarrow> jsnum \<Rightarrow> int option \<Rightarrow> NewsItem" where
  "mk_item k node r t =
     \<lparr>item_id = k, title = [], url = [], content = [], nodeName = node, nodeTitle = [],
      author = [], replies = r, createdAt = t\<rparr>"

text \<open>
  The score that \<^verbatim>\<open>addItem\<close> leaves for an id, from the stored one (if any) and the score
  passed.
\<close>

definition ratchet :: "jsnum option \<Rightarrow> jsnum \<Rightarrow> jsnum option" where
  "ratchet cur sc =
     (if js_gt sc (case cur of None \<Rightarrow> Fin 0 | Some e \<Rightarrow> e) then Some sc else cur)"

text \<open>
  \<open>is_max_of cur seen\<close>: the stored score \<open>cur\<close> is the maximum of the scores \<open>seen\<close>, in
  the way \<^verbatim>\<open>addItem\<close> keeps it: a score is stored only if some score seen is greater than 0;
  then it is one of the scores seen, and none of them is greater.
\<close>

definition is_max_of :: "jsnum option \<Rightarrow> jsnum list \<Rightarrow> bool" where
  "is_max_of cur seen =
     (case cur of
        None \<Rightarrow> \<not> (\<exists>s\<in>set seen. js_gt s (Fin 0))
      | Some m \<Rightarrow> js_gt m (Fin 0) \<and> m \<in> set seen \<and> \<not> (\<exists>s\<in>set seen. js_gt s m))"

text \<open>
  Collaborators and a configuration for the examples. The calendar is right on the two
  days of the examples: 2024-03-15 begins at 1710460800000 ms, and the instants of the
  examples before it are on 2024-03-08; seven days are 7 * 86400000 ms (a zone without a
  change of clock).
\<close>

definition sample_dates :: Dates where
  "sample_dates =
     \<lparr>toISODate = (\<lambda>t. if t < 1710460800000 then ''2024-03-08'' else ''2024-03-15''),
      sevenDaysBefore = (\<lambda>t. t - 7 * 86400000)\<rparr>"

definition sample_co :: Collaborators where
  "sample_co =
     \<lparr>dates = sample_dates,
      summarizeItem = (\<lambda>config t body lang. []),
      summarizePost = (\<lambda>config its lang. []),
      renderMarkdown = (\<lambda>t day summary its. t),
      expandVars = (\<lambda>template day. template)\<rparr>"

definition sample_config :: AppConfig where
  "sample_config =
     \<lparr>ai_provider = ''openai'', ai_apiKey = [], ai_model = ''gpt-4o-mini'', ai_baseUrl = [],
      excludeNodes = [''promotions'', ''deals'', ''cv'', ''exchange''], topN = 20, skipHours = 72,
      template_title = []\<rparr>"

text \<open>A store with two score tables and two skip markers, for the example of \<^verbatim>\<open>gc\<close>.\<close>

definition gc_store :: MemStore where
  "gc_store =
     \<lparr>items = Map.empty,
      periodScores = [''2024-03-07'' \<mapsto> [(''1'', Fin 2)], ''2024-03-08'' \<mapsto> [(''2'', Fin 1)]],
      published = {},
      skipped = [''v2ex-digest:1'' \<mapsto> 1710460799999, ''v2ex-digest:2'' \<mapsto> 1710460800000]\<rparr>"

text \<open>A store with the score tables of three days, for the example of the cutoff.\<close>

definition week_store :: MemStore where
  "week_store =
     \<lparr>items = Map.empty,
      periodScores = [''2024-03-07'' \<mapsto> [(''1'', Fin 2)], ''2024-03-08'' \<mapsto> [(''2'', Fin 1)],
                      ''2024-03-15'' \<mapsto> [(''3'', Fin 3)]],
      published = {},
      skipped = Map.empty\<rparr>"

text \<open>
  \<open>only_evicted now st st'\<close>: the store \<open>st'\<close> is the store \<open>st\<close> but for skip markers
  that had expired at \<open>now\<close> and are deleted, which is what the reads of \<^verbatim>\<open>isSkipped\<close> do.
\<close>

definition only_evicted :: "int \<Rightarrow> MemStore \<Rightarrow> MemStore \<Rightarrow> bool" where
  "only_evicted now st st' =
     (\<exists>sk. st' = st\<lparr>skipped := sk\<rparr>
         \<and> (\<forall>key. sk key = skipped st key
                  \<or> (sk key = None \<and> (\<exists>expiry. skipped st key = Some expiry \<and> now > expiry))))"

text \<open>
  A store for the example of a tick below the threshold: six items of the day, one of
  them in an excluded node (in capitals), one under a marker that expires at the instant
  of the tick, one under a marker that expired a millisecond before.
\<close>

definition tick_store :: MemStore where
  "tick_store =
     \<lparr>items = [''1'' \<mapsto> mk_item ''1'' ''tech'' (Fin 9) (Some 0),
               ''2'' \<mapsto> mk_item ''2'' ''Deals'' (Fin 8) (Some 0),
               ''3'' \<mapsto> mk_item ''3'' ''tech'' (Fin 7) (Some 0),
               ''4'' \<mapsto> mk_item ''4'' ''jobs'' (Fin 6) (Some 0),
               ''5'' \<mapsto> mk_item ''5'' ''tech'' (Fin 5) (Some 0),
               ''6'' \<mapsto> mk_item ''6'' ''tech'' (Fin 4) (Some 0)],
      periodScores = [''2024-03-15'' \<mapsto>
        [(''4'', Fin 1), (''1'', Fin 4), (''2'', Fin 6), (''3'', Fin 2), (''5'', Fin 3), (''6'', Fin 5)]],
      published = {},
      skipped = [''v2ex-digest:4'' \<mapsto> 1710460799999, ''v2ex-digest:6'' \<mapsto> 1710460800000]\<rparr>"

text \<open>The entries of a period's score table, in the order of \<^verbatim>\<open>topItems\<close>.\<close>

definition ranked_entries :: "MemStore \<Rightarrow> string \<Rightarrow> (string \<times> jsnum) list" where
  "ranked_entries st period =
     js_sort (\<lambda>a b. by_score_desc (snd a) (snd b))
       (case periodScores st period of None \<Rightarrow> [] | Some scores \<Rightarrow> scores)"

text \<open>
  A store in which an id of a score table has no item (as after loading a snapshot whose
  item map lacks it).
\<close>

definition dangling_store :: MemStore where
  "dangling_store =
     \<lparr>items = [''2'' \<mapsto> mk_item ''2'' ''tech'' (Fin 8) (Some 0),
               ''3'' \<mapsto> mk_item ''3'' ''tech'' (Fin 7) (Some 0)],
      periodScores = [''2024-03-15'' \<mapsto> [(''3'', Fin 1), (''1'', Fin 3), (''2'', Fin 2)]],
      published = {},
      skipped = Map.empty\<rparr>"

text \<open>
  The elapsed time in hours that \<^verbatim>\<open>computeScore\<close> uses for a valid date created at \<open>t\<close>:
  \<^verbatim>\<open>Math.max(hoursSincePost, 0)\<close>.
\<close>

definition hours_since :: "int \<Rightarrow> int \<Rightarrow> real" where
  "hours_since now t = max 0 (real_of_int (now - t) / 3600000)"






text \<open>
  The qualifying items of \<^verbatim>\<open>scoreAndRank\<close>, in two orders of the steps. \<open>first_by_id\<close> keeps
  the first item of every id. \<open>qualifying\<close> drops the items that are to be skipped or in
  an excluded node, then keeps the first of every id among the others, and of these, with
  their scores, those with a score greater than 0.
\<close>

fun first_by_id :: "NewsItem list \<Rightarrow> NewsItem list" where
  "first_by_id [] = []"
| "first_by_id (x # xs) = x # first_by_id (filter (\<lambda>y. item_id y \<noteq> item_id x) xs)"

definition qualifying :: "int \<Rightarrow> NewsItem list \<Rightarrow> string set \<Rightarrow> string list \<Rightarrow> ScoredItem list" where
  "qualifying now its skipIds excl =
     filter (\<lambda>s. js_gt (score s) (Fin 0))
       (map (\<lambda>it. \<lparr>item = it, score = computeScore now it\<rparr>)
         (first_by_id
           (filter (\<lambda>it. item_id it \<notin> skipIds
                        \<and> toLowerCase (nodeName it) \<notin> toLowerCase ` set excl) its)))"

text \<open>
  \<open>spec_qualifying\<close> follows the words of the specification of the ranker, its steps 1 to 3
  in their order: deduplicate by identifier, keeping the first occurrence in input order;
  drop any item whose identifier is in \<open>skipIds\<close> or whose node, whatever the case of the
  letters, is in \<open>excludeNodes\<close>; compute the score of each survivor and drop the items with
  a score of 0 or less.
\<close>

definition spec_qualifying :: "int \<Rightarrow> NewsItem list \<Rightarrow> string set \<Rightarrow> string list \<Rightarrow> ScoredItem list" where
  "spec_qualifying now its skipIds excl =
     filter (\<lambda>s. \<not> js_le (score s) (Fin 0))
       (map (\<lambda>it. \<lparr>item = it, score = computeScore now it\<rparr>)
         (filter (\<lambda>it. item_id it \<notin> skipIds
                      \<and> toLowerCase (nodeName it) \<notin> toLowerCase ` set excl)
           (first_by_id its)))"

text \<open>
  An input for the example of \<^verbatim>\<open>scoreAndRank\<close>, all posted one hour before the call: an
  id twice, a node to exclude (in capitals), an item without replies, an id to skip.
\<close>

definition rank_input :: "NewsItem list" where
  "rank_input =
     [mk_item ''1'' ''tech'' (Fin 10) (Some 1710457200000),
      mk_item ''2'' ''Deals'' (Fin 50) (Some 1710457200000),
      mk_item ''1'' ''tech'' (Fin 99) (Some 1710457200000),
      mk_item ''3'' ''tech'' (Fin 0) (Some 1710457200000),
      mk_item ''9'' ''tech'' (Fin 7) (Some 1710457200000),
      mk_item ''4'' ''jobs'' (Fin 20) (Some 1710457200000),
      mk_item ''5'' ''jobs'' (Fin 5) (Some 1710457200000)]"

text \<open>The same input in a store: the seven items at the addresses 0 to 6 and their array at
  the address 7.\<close>

definition rank_heap :: heap where
  "rank_heap = map ItemObj rank_input @ [ItemArray [0, 1, 2, 3, 4, 5, 6]]"

text \<open>
  An input in which an item of an excluded node comes before an item of the same id in
  another node, both posted one hour before the call.
\<close>

definition shadow_input :: "NewsItem list" where
  "shadow_input =
     [mk_item ''1'' ''deals'' (Fin 10) (Some 1710457200000),
      mk_item ''1'' ''tech'' (Fin 10) (Some 1710457200000)]"

text \<open>
  A snapshot that parses, with one item and with the number 5 where the list of publish
  markers should be:
  \<^verbatim>\<open>{"items":{"1":{"id":"1","replies":3,"createdAt":"2024-03-15T00:00:00.000Z"}},"published":5}\<close>
\<close>

definition partial_snapshot :: snapshot_file where
  "partial_snapshot =
     Json (JObj [(''items'', JObj [(''1'', JObj [(''id'', JStr ''1''), (''replies'', JNum (Fin 3)),
                                               (''createdAt'', JStr ''2024-03-15T00:00:00.000Z'')])]),
                 (''published'', JNum (Fin 5))])"

section \<open>Properties of the store\<close>

subsection \<open>Comparisons of numbers\<close>

lemma js_lt_irrefl [simp]: "\<not> js_lt a a"
  by (cases a) auto

lemma js_gt_trans: "js_gt a b \<Longrightarrow> js_gt b c \<Longrightarrow> js_gt a c"
  by (cases a; cases b; cases c) (auto simp: js_gt_def)

lemma js_gt_not_trans: "\<not> js_gt s m \<Longrightarrow> js_gt m' m \<Longrightarrow> \<not> js_gt s m'"
  by (cases s; cases m; cases m') (auto simp: js_gt_def)

subsection \<open>The ratchet of addItem\<close>

lemma map_of_table_set:
  "map_of (table_set k v t) k' = (if k' = k then Some v else map_of t k')"
  by (induction t) auto

lemma stored_score_addItem:
  "stored_score (addItem p it sc st) p (item_id it) = ratchet (stored_score st p (item_id it)) sc"
  by (auto simp: stored_score_def addItem_def ratchet_def table_get_def map_of_table_set Let_def
      split: option.splits)

lemma stored_score_addItems:
  "\<forall>c\<in>set calls. item_id (fst c) = k \<Longrightarrow>
   stored_score (addItems p calls st) p k = foldl ratchet (stored_score st p k) (map snd calls)"
proof (induction calls arbitrary: st)
  case Nil
  then show ?case by simp
next
  case (Cons c calls)
  obtain it sc where c: "c = (it, sc)" by (cases c)
  with Cons.prems have k: "item_id it = k" by simp
  from Cons c k show ?case by (simp add: stored_score_addItem[of p it sc st, unfolded k])
qed

lemma is_max_of_ratchet:
  "is_max_of cur seen \<Longrightarrow> is_max_of (ratchet cur sc) (seen @ [sc])"
  unfolding is_max_of_def ratchet_def
  by (cases cur) (auto dest: js_gt_not_trans js_gt_trans simp: js_gt_def[of sc sc])

lemma is_max_of_foldl:
  "is_max_of cur seen \<Longrightarrow> is_max_of (foldl ratchet cur scs) (seen @ scs)"
proof (induction scs arbitrary: cur seen)
  case Nil
  then show ?case by simp
next
  case (Cons sc scs)
  from Cons.IH[OF is_max_of_ratchet[OF Cons.prems, of sc]] show ?case by simp
qed

lemma items_addItems:
  "calls \<noteq> [] \<Longrightarrow> \<forall>c\<in>set calls. item_id (fst c) = k \<Longrightarrow>
   items (addItems p calls st) k = Some (fst (last calls))"
proof (induction calls arbitrary: st)
  case Nil
  then show ?case by simp
next
  case (Cons c calls)
  obtain it sc where c: "c = (it, sc)" by (cases c)
  show ?case
  proof (cases "calls = []")
    case True
    with c Cons.prems show ?thesis by (simp add: addItem_def Let_def)
  next
    case False
    with Cons c show ?thesis by simp
  qed
qed

text \<open>
  C1, as amended. From a store that holds no score for the period \<open>p\<close> and the id \<open>k\<close>,
  after any non-empty sequence of \<^verbatim>\<open>addItem\<close> calls for \<open>p\<close> with items of id \<open>k\<close>: if
  some score passed is greater than 0, the stored score is the maximum of the scores
  passed (it is one of them and none is greater, so a later, lower score did not lower
  it); if none is, no score is stored. The stored item is the item of the last call,
  whatever the scores.
\<close>

theorem ratchet_upsert:
  assumes "calls \<noteq> []" and "\<forall>c\<in>set calls. item_id (fst c) = k"
    and "stored_score st p k = None"
  shows "is_max_of (stored_score (addItems p calls st) p k) (map snd calls)
         \<and> items (addItems p calls st) k = Some (fst (last calls))"
proof -
  have "is_max_of None []" by (simp add: is_max_of_def)
  from is_max_of_foldl[OF this, of "map snd calls"] assms(2,3)
  have "is_max_of (stored_score (addItems p calls st) p k) (map snd calls)"
    by (simp add: stored_score_addItems)
  with items_addItems[OF assms(1,2)] show ?thesis by simp
qed

text \<open>Score 5 and then score 3, with a newer copy of the item: 5 stays, the newer copy
  is stored.\<close>

theorem ratchet_upsert_witness:
  "stored_score (addItems ''2024-01-01''
       [(mk_item ''1'' ''tech'' (Fin 3) (Some 0), Fin 5), (mk_item ''1'' ''tech'' (Fin 4) (Some 0), Fin 3)]
       empty_store) ''2024-01-01'' ''1'' = Some (Fin 5)
   \<and> items (addItems ''2024-01-01''
       [(mk_item ''1'' ''tech'' (Fin 3) (Some 0), Fin 5), (mk_item ''1'' ''tech'' (Fin 4) (Some 0), Fin 3)]
       empty_store) ''1'' = Some (mk_item ''1'' ''tech'' (Fin 4) (Some 0))"
  using ratchet_upsert[of "[(mk_item ''1'' ''tech'' (Fin 3) (Some 0), Fin 5), (mk_item ''1'' ''tech'' (Fin 4) (Some 0), Fin 3)]"
      "''1''" empty_store "''2024-01-01''"]
  by (auto simp: is_max_of_def mk_item_def stored_score_def empty_store_def js_gt_def split: option.splits)

text \<open>
  C1 as stated fails: one call with the score -1 on the empty store. The maximum of the
  scores passed is -1, and no score is stored (\<^verbatim>\<open>-1 > 0\<close> is false).
\<close>

theorem ratchet_upsert_counterexample:
  "stored_score (addItems ''2024-01-01'' [(mk_item ''1'' ''tech'' (Fin 3) (Some 0), Fin (- 1))] empty_store)
     ''2024-01-01'' ''1'' = None"
  by (simp add: stored_score_def addItem_def empty_store_def mk_item_def table_get_def js_gt_def)

subsection \<open>Publish markers\<close>

text \<open>
  C2. After \<^verbatim>\<open>markPublished(channel, period)\<close>, \<^verbatim>\<open>isPublished(channel, period)\<close> is true, and
  a second \<^verbatim>\<open>markPublished\<close> changes nothing. A tick of the builder on a store where its
  channel and the period of the tick are published returns \<^verbatim>\<open>null\<close>, with the store as
  it was (no skip marker, score table or item is touched) and without any action (nothing
  is rendered or written).
\<close>

theorem publish_once:
  "isPublished c p (markPublished c p st)
   \<and> markPublished c p (markPublished c p st) = markPublished c p st
   \<and> (isPublished channel_name (toISODate (dates co) now) st \<longrightarrow>
        runOnce co config now st = (None, st, []))"
  by (simp add: isPublished_def markPublished_def runOnce_def Let_def)

theorem publish_once_witness:
  "isPublished channel_name ''2024-03-15''
     (markPublished channel_name ''2024-03-15'' (markPublished channel_name ''2024-03-15'' empty_store))
   \<and> runOnce sample_co sample_config 1710460800000 (markPublished channel_name ''2024-03-15'' empty_store)
       = (None, markPublished channel_name ''2024-03-15'' empty_store, [])"
  using publish_once[where c = channel_name and p = "''2024-03-15''" and co = sample_co
      and now = 1710460800000 and st = "markPublished channel_name ''2024-03-15'' empty_store"
      and config = sample_config]
  by (simp add: sample_co_def sample_dates_def isPublished_def markPublished_def)

subsection \<open>Skip markers\<close>

text \<open>
  C5, as amended. Right after \<^verbatim>\<open>markSkipped(channel, id, ttl)\<close>, and as long as no more than
  \<open>ttl\<close> has elapsed since the mark (the instant \<open>now + ttl\<close> included), \<^verbatim>\<open>isSkipped\<close> is
  true and leaves the store alone. Once more than \<open>ttl\<close> has elapsed, \<^verbatim>\<open>isSkipped\<close> is false
  and the entry is deleted from the skip map. With no entry under the key of the channel
  and the id, \<^verbatim>\<open>isSkipped\<close> is false and the store is unchanged.
\<close>

theorem skip_marker_ttl:
  "fst (isSkipped now c k (markSkipped now c k ttl st))
   \<and> (now' \<le> now + int ttl \<longrightarrow>
        isSkipped now' c k (markSkipped now c k ttl st) = (True, markSkipped now c k ttl st))
   \<and> (now + int ttl < now' \<longrightarrow>
        isSkipped now' c k (markSkipped now c k ttl st)
          = (False, st\<lparr>skipped := (skipped st)(marker_key c k := None)\<rparr>))
   \<and> (skipped st (marker_key c k) = None \<longrightarrow> isSkipped now' c k st = (False, st))"
  by (simp add: isSkipped_def markSkipped_def Let_def)

theorem skip_marker_ttl_witness:
  "isSkipped 999 ''v2ex-digest'' ''7'' (markSkipped 0 ''v2ex-digest'' ''7'' 1000 empty_store)
     = (True, markSkipped 0 ''v2ex-digest'' ''7'' 1000 empty_store)
   \<and> isSkipped 1001 ''v2ex-digest'' ''7'' (markSkipped 0 ''v2ex-digest'' ''7'' 1000 empty_store)
     = (False, empty_store)
   \<and> isSkipped 1001 ''v2ex-digest'' ''8'' (markSkipped 0 ''v2ex-digest'' ''7'' 1000 empty_store)
     = (False, markSkipped 0 ''v2ex-digest'' ''7'' 1000 empty_store)"
  using skip_marker_ttl[of 0 "''v2ex-digest''" "''7''" 1000 empty_store 999]
    skip_marker_ttl[of 0 "''v2ex-digest''" "''7''" 1000 empty_store 1001]
    skip_marker_ttl[of 1001 "''v2ex-digest''" "''8''" 0 "markSkipped 0 ''v2ex-digest'' ''7'' 1000 empty_store" 1001]
  by (simp add: empty_store_def markSkipped_def marker_key_def)

text \<open>
  C5 as stated fails when exactly \<open>ttl\<close> has elapsed: marked at 0 with a time to live of
  1000 ms, the id is still skipped at 1000 (\<^verbatim>\<open>1000 > 1000\<close> is false), and the entry stays.
\<close>

theorem skip_marker_ttl_counterexample:
  "isSkipped 1000 ''v2ex-digest'' ''7'' (markSkipped 0 ''v2ex-digest'' ''7'' 1000 empty_store)
     = (True, markSkipped 0 ''v2ex-digest'' ''7'' 1000 empty_store)"
  by (simp add: isSkipped_def markSkipped_def Let_def)

subsection \<open>Garbage collection\<close>

text \<open>
  What \<^verbatim>\<open>gc()\<close> does, for any calendar: a skip marker is in the store afterwards if and only
  if it was there and its expiry has not passed (\<open>now\<close> is not after it); a score table is
  in the store if and only if it was there and its period is not before \<open>cutoffStr\<close>, in
  the order of strings. The items and the publish set are as they were.
\<close>

lemma gc_effect:
  "(skipped (gc d now st) key = Some e \<longleftrightarrow> skipped st key = Some e \<and> \<not> now > e)
   \<and> (periodScores (gc d now st) p = Some t \<longleftrightarrow> periodScores st p = Some t \<and> \<not> p < cutoffStr d now)
   \<and> items (gc d now st) = items st
   \<and> published (gc d now st) = published st"
  by (auto simp: gc_def split: option.splits)

text \<open>The calendar on some days: leap days, the first and the last day of a year, days
  before 1970 and the first day of the range of time values.\<close>

lemma ISODate_samples:
  "ISODate 1710545400000 = ''2024-03-15''"
  "ISODate 1710531000000 = ''2024-03-15''"
  "ISODate 1709944200000 = ''2024-03-09''"
  "ISODate 0 = ''1970-01-01''"
  "ISODate (- 1) = ''1969-12-31''"
  "ISODate 951782400000 = ''2000-02-29''"
  "ISODate 1709251199999 = ''2024-02-29''"
  "ISODate 1735689600000 = ''2025-01-01''"
  "ISODate (- 8640000000000000) = ''-271821-04''"
  "iso_date_of_day (1710545400000 div msPerDay - 7) = ''2024-03-08''"
  by code_simp+

text \<open>
  In a zone without a change of clock the cutoff is the day of UTC seven days before the
  day of UTC of \<open>now\<close>, the day that the periods are named after.
\<close>

lemma cutoffStr_fixed_zone:
  "cutoffStr (js_dates (fixed_zone offset)) now = iso_date_of_day (now div msPerDay - 7)"
proof -
  have "(now - 7 * msPerDay) div msPerDay = now div msPerDay - 7"
    by (simp add: msPerDay_def)
  then show ?thesis
    by (simp add: cutoffStr_def js_dates_def setDate_minus7_def LocalTime_def UTC_of_local_def
        fixed_zone_def ISODate_def)
qed

lemma cutoff_new_york: "cutoffStr (js_dates new_york) 1710545400000 = ''2024-03-09''"
  by (simp add: cutoffStr_def js_dates_def setDate_minus7_def LocalTime_def UTC_of_local_def
      new_york_def msPerDay_def ISODate_samples(3))

text \<open>
  C8. After \<^verbatim>\<open>gc()\<close> a score table should be in the store if and only if its period is not
  before the day seven days before today. In a process in \<^verbatim>\<open>America/New_York\<close> that calls
  \<^verbatim>\<open>gc()\<close> on 2024-03-15 at 23:30:00 UTC (19:30 of the same day there), today is 2024-03-15
  and the day seven days before is 2024-03-08; \<^verbatim>\<open>setDate\<close> goes back to 19:30 of 2024-03-08
  by the local clock, which was an hour further from UTC then, that is 00:30 UTC of
  2024-03-09, and \<^verbatim>\<open>toISOString\<close> gives 2024-03-09 as the cutoff: the table of 2024-03-08 is
  deleted.
\<close>

theorem gc_local_cutoff:
  "ISODate 1710545400000 = ''2024-03-15''
   \<and> ISODate (LocalTime new_york 1710545400000) = ''2024-03-15''
   \<and> iso_date_of_day (1710545400000 div msPerDay - 7) = ''2024-03-08''
   \<and> cutoffStr (js_dates new_york) 1710545400000 = ''2024-03-09''
   \<and> periodScores week_store ''2024-03-08'' = Some [(''2'', Fin 1)]
   \<and> periodScores (gc (js_dates new_york) 1710545400000 week_store) ''2024-03-08'' = None
   \<and> periodScores (gc (js_dates (fixed_zone 0)) 1710545400000 week_store) ''2024-03-08''
       = Some [(''2'', Fin 1)]"
proof -
  have "ISODate (LocalTime new_york 1710545400000) = ''2024-03-15''"
    by (simp add: LocalTime_def new_york_def ISODate_samples)
  moreover have "periodScores (gc (js_dates new_york) 1710545400000 week_store) ''2024-03-08'' = None"
    by (simp add: gc_def cutoff_new_york)
  moreover have "periodScores (gc (js_dates (fixed_zone 0)) 1710545400000 week_store) ''2024-03-08''
       = Some [(''2'', Fin 1)]"
    by (simp add: gc_def cutoffStr_fixed_zone ISODate_samples week_store_def)
  moreover have "periodScores week_store ''2024-03-08'' = Some [(''2'', Fin 1)]"
    by (simp add: week_store_def)
  ultimately show ?thesis
    by (simp add: cutoff_new_york ISODate_samples)
qed

text \<open>With the calendar of the examples, on 2024-03-15 at 00:00:00.000: the table of
  2024-03-07 goes and the table of 2024-03-08 stays; the marker that expired a millisecond
  ago goes and the marker that expires now stays.\<close>

lemma gc_effect_example:
  "skipped (gc sample_dates 1710460800000 gc_store) ''v2ex-digest:1'' \<noteq> Some 1710460799999
   \<and> skipped (gc sample_dates 1710460800000 gc_store) ''v2ex-digest:2'' = Some 1710460800000
   \<and> periodScores (gc sample_dates 1710460800000 gc_store) ''2024-03-07'' \<noteq> Some [(''1'', Fin 2)]
   \<and> periodScores (gc sample_dates 1710460800000 gc_store) ''2024-03-08'' = Some [(''2'', Fin 1)]"
  using gc_effect[of sample_dates 1710460800000 gc_store "''v2ex-digest:1''" 1710460799999
      "''2024-03-07''" "[(''1'', Fin 2)]"]
    gc_effect[of sample_dates 1710460800000 gc_store "''v2ex-digest:2''" 1710460800000
      "''2024-03-08''" "[(''2'', Fin 1)]"]
  by (simp add: gc_store_def cutoffStr_def sample_dates_def)

section \<open>Properties of the builder\<close>

subsection \<open>A tick below the threshold\<close>

lemma only_evicted_refl: "only_evicted now st st"
  unfolding only_evicted_def by (rule exI[of _ "skipped st"]) simp

lemma only_evicted_trans:
  assumes "only_evicted now st1 st2" and "only_evicted now st2 st3"
  shows "only_evicted now st1 st3"
proof -
  from assms(1) obtain sk where sk: "st2 = st1\<lparr>skipped := sk\<rparr>"
    and k1: "\<forall>key. sk key = skipped st1 key
                  \<or> (sk key = None \<and> (\<exists>expiry. skipped st1 key = Some expiry \<and> now > expiry))"
    unfolding only_evicted_def by blast
  from assms(2) obtain sk' where sk': "st3 = st2\<lparr>skipped := sk'\<rparr>"
    and k2: "\<forall>key. sk' key = skipped st2 key
                  \<or> (sk' key = None \<and> (\<exists>expiry. skipped st2 key = Some expiry \<and> now > expiry))"
    unfolding only_evicted_def by blast
  have eq: "st3 = st1\<lparr>skipped := sk'\<rparr>" using sk sk' by simp
  have "sk' key = skipped st1 key
          \<or> (sk' key = None \<and> (\<exists>expiry. skipped st1 key = Some expiry \<and> now > expiry))" for key
  proof -
    have s2: "skipped st2 = sk" using sk by simp
    from k2[rule_format, of key] show ?thesis
    proof
      assume "sk' key = skipped st2 key"
      with s2 k1[rule_format, of key] show ?thesis by simp
    next
      assume a: "sk' key = None \<and> (\<exists>expiry. skipped st2 key = Some expiry \<and> now > expiry)"
      then obtain e where e: "sk key = Some e" "now > e" using s2 by auto
      with k1[rule_format, of key] have "skipped st1 key = Some e" by simp
      with a e show ?thesis by simp
    qed
  qed
  with eq show ?thesis unfolding only_evicted_def by blast
qed

lemma isSkipped_only_evicted: "only_evicted now st (snd (isSkipped now c k st))"
proof (cases "skipped st (marker_key c k)")
  case None
  then show ?thesis by (simp add: isSkipped_def only_evicted_refl)
next
  case (Some expiry)
  show ?thesis
  proof (cases "now > expiry")
    case True
    with Some have "snd (isSkipped now c k st) = st\<lparr>skipped := (skipped st)(marker_key c k := None)\<rparr>"
      by (simp add: isSkipped_def)
    moreover have "\<forall>key. ((skipped st)(marker_key c k := None)) key = skipped st key
        \<or> (((skipped st)(marker_key c k := None)) key = None
             \<and> (\<exists>e. skipped st key = Some e \<and> now > e))"
      using Some True by simp
    ultimately show ?thesis unfolding only_evicted_def by blast
  next
    case False
    with Some show ?thesis by (simp add: isSkipped_def only_evicted_refl)
  qed
qed

lemma filter_not_skipped_only_evicted:
  "only_evicted now st (snd (filter_not_skipped now c cs st))"
proof (induction cs arbitrary: st)
  case Nil
  then show ?case by (simp add: only_evicted_refl)
next
  case (Cons x cs)
  obtain sk st1 where s1: "isSkipped now c (item_id (item x)) st = (sk, st1)"
    by (cases "isSkipped now c (item_id (item x)) st")
  obtain rest st2 where s2: "filter_not_skipped now c cs st1 = (rest, st2)"
    by (cases "filter_not_skipped now c cs st1")
  from isSkipped_only_evicted[of now st c "item_id (item x)"] s1
  have a: "only_evicted now st st1" by simp
  from Cons.IH[of st1] s2 have b: "only_evicted now st1 st2" by simp
  from s1 s2 have "snd (filter_not_skipped now c (x # cs) st) = st2" by simp
  with only_evicted_trans[OF a b] show ?case by simp
qed

lemma candidates_only_evicted: "only_evicted now st (snd (candidates config now period st))"
proof -
  let ?c1 = "filter (\<lambda>c. toLowerCase (nodeName (item c)) \<notin> set (map toLowerCase (excludeNodes config)))
               (topItems period (topN config * 5) st)"
  have "snd (candidates config now period st) = snd (filter_not_skipped now channel_name ?c1 st)"
    by (simp add: candidates_def Let_def split: prod.splits)
  then show ?thesis by (simp add: filter_not_skipped_only_evicted)
qed

text \<open>
  C6. A tick of the builder in which fewer than 5 candidates are left by the filters (the
  excluded nodes, the skip markers, the positive replies and score) returns \<^verbatim>\<open>null\<close> and
  does nothing: no directory, file, sweep or snapshot (the list of actions is empty), and
  the store is the one before the tick but for the expired skip markers that the reads
  of \<^verbatim>\<open>isSkipped\<close> deleted. So nothing is marked published or skipped.
\<close>

theorem below_threshold_atomic:
  assumes "length (fst (candidates config now (toISODate (dates co) now) st)) < 5"
  shows "\<exists>st'. runOnce co config now st = (None, st', []) \<and> only_evicted now st st'"
proof (cases "isPublished channel_name (toISODate (dates co) now) st")
  case True
  then have "runOnce co config now st = (None, st, [])" by (simp add: runOnce_def Let_def)
  with only_evicted_refl show ?thesis by blast
next
  case False
  obtain cands st1 where c: "candidates config now (toISODate (dates co) now) st = (cands, st1)"
    by (cases "candidates config now (toISODate (dates co) now) st")
  with assms have "length cands < minItems" by (simp add: minItems_def)
  with False c have "runOnce co config now st = (None, st1, [])" by (simp add: runOnce_def Let_def)
  moreover from candidates_only_evicted[of now st config "toISODate (dates co) now"] c
  have "only_evicted now st st1" by simp
  ultimately show ?thesis by blast
qed


text \<open>Four candidates are left of the six items: nothing happens but the eviction of the
  expired marker.\<close>

theorem below_threshold_atomic_witness:
  "runOnce sample_co sample_config 1710460800000 tick_store
     = (None, tick_store\<lparr>skipped := [''v2ex-digest:6'' \<mapsto> 1710460800000]\<rparr>, [])
   \<and> length (fst (candidates sample_config 1710460800000 ''2024-03-15'' tick_store)) = 4"
proof -
  have c: "candidates sample_config 1710460800000 ''2024-03-15'' tick_store
      = ([\<lparr>item = mk_item ''1'' ''tech'' (Fin 9) (Some 0), score = Fin 4\<rparr>,
          \<lparr>item = mk_item ''5'' ''tech'' (Fin 5) (Some 0), score = Fin 3\<rparr>,
          \<lparr>item = mk_item ''3'' ''tech'' (Fin 7) (Some 0), score = Fin 2\<rparr>,
          \<lparr>item = mk_item ''4'' ''jobs'' (Fin 6) (Some 0), score = Fin 1\<rparr>],
         tick_store\<lparr>skipped := [''v2ex-digest:6'' \<mapsto> 1710460800000]\<rparr>)"
    by (simp add: candidates_def sample_config_def tick_store_def topItems_def top_entries_def
      js_sort_def by_score_desc_def js_sub_def js_gt_def mk_item_def Let_def toLowerCase_def lower_char_def
      isSkipped_def marker_key_def channel_name_def)
  have d: "toISODate (dates sample_co) 1710460800000 = ''2024-03-15''"
    by (simp add: sample_co_def sample_dates_def)
  have h: "length (fst (candidates sample_config 1710460800000
      (toISODate (dates sample_co) 1710460800000) tick_store)) < 5"
    by (simp add: c d)
  from below_threshold_atomic[OF h] obtain st'
    where r: "runOnce sample_co sample_config 1710460800000 tick_store = (None, st', [])" by blast
  have "\<not> isPublished channel_name ''2024-03-15'' tick_store"
    by (simp add: isPublished_def tick_store_def)
  with r c d have "st' = tick_store\<lparr>skipped := [''v2ex-digest:6'' \<mapsto> 1710460800000]\<rparr>"
    by (simp add: runOnce_def Let_def minItems_def)
  with r c show ?thesis by simp
qed

section \<open>Properties of the scorer\<close>

subsection \<open>computeScore\<close>

lemma hours_since_nonneg: "0 \<le> hours_since now t"
  by (simp add: hours_since_def)

lemma hours_Fin:
  "createdAt it = Some t \<Longrightarrow> Math_max (hoursSincePost now it) (Fin 0) = Fin (hours_since now t)"
  by (simp add: hoursSincePost_def getTime_def js_sub_def Math_max_def hours_since_def max_def)

lemma pow_hours:
  "Math_pow_1_8 (Fin (hours_since now t + 2)) = Fin ((hours_since now t + 2) powr (18 / 10))"
  using hours_since_nonneg[of now t] by simp

lemma pow_hours_pos: "0 < (hours_since now t + 2) powr (18 / 10)"
  using hours_since_nonneg[of now t] by simp

lemma raw_score_Fin:
  "replies it = Fin r \<Longrightarrow> createdAt it = Some t \<Longrightarrow>
   raw_score now it = Fin ((r - 1) / (hours_since now t + 2) powr (18 / 10))"
  using pow_hours_pos[of now t] hours_since_nonneg[of now t]
  by (simp add: raw_score_def hours_Fin pow_hours js_sub_def Let_def del: Math_pow_1_8.simps)

lemma raw_score_invalid:
  "createdAt it = None \<Longrightarrow> raw_score now it = NaN"
  by (cases "replies it")
    (simp_all add: raw_score_def hoursSincePost_def getTime_def js_sub_def Math_max_def Let_def)

lemma raw_score_PosInf:
  "replies it = PosInf \<Longrightarrow> createdAt it = Some t \<Longrightarrow> raw_score now it = PosInf"
  using pow_hours_pos[of now t] hours_since_nonneg[of now t]
  by (simp add: raw_score_def hours_Fin pow_hours js_sub_def Let_def del: Math_pow_1_8.simps)

lemma raw_score_NaN:
  "replies it = NaN \<Longrightarrow> raw_score now it = NaN"
  by (simp add: raw_score_def js_sub_def Let_def)

lemma computeScore_cases:
  "computeScore now it = Fin 0 \<or> (\<exists>x. 0 \<le> x \<and> computeScore now it = Fin x)
   \<or> (computeScore now it = PosInf \<and> replies it = PosInf)"
proof (cases "createdAt it")
  case None
  then show ?thesis by (simp add: computeScore_def raw_score_invalid isNaN_def)
next
  case (Some t)
  show ?thesis
  proof (cases "replies it")
    case NaN
    then show ?thesis
      by (simp add: computeScore_def js_le_def raw_score_NaN isNaN_def)
  next
    case NegInf
    then show ?thesis by (simp add: computeScore_def js_le_def)
  next
    case (Fin r)
    with Some show ?thesis
      by (auto simp: computeScore_def raw_score_Fin isNaN_def Let_def not_less)
  next
    case PosInf
    with Some show ?thesis
      by (simp add: computeScore_def js_le_def raw_score_PosInf isNaN_def)
  qed
qed

text \<open>
  C3, as amended. \<^verbatim>\<open>computeScore\<close> is exactly 0 when \<^verbatim>\<open>replies <= 0\<close>. For a finite number
  of replies \<open>r > 0\<close> and a valid date, it is \<open>(r - 1) / (h + 2) ^ 1.8\<close> with \<open>h\<close> the elapsed
  hours or 0 when the date is in the future, and 0 when that value is negative. With an
  invalid date or with NaN replies it is 0 (the computed value is NaN). With
  \<^verbatim>\<open>+Infinity\<close> replies and a valid date it is \<^verbatim>\<open>+Infinity\<close>. The result is never NaN and
  never negative, and it is finite unless the number of replies is \<^verbatim>\<open>+Infinity\<close>.
\<close>

theorem computeScore_spec:
  "(js_le (replies it) (Fin 0) \<longrightarrow> computeScore now it = Fin 0)
   \<and> (\<forall>r t. replies it = Fin r \<and> 0 < r \<and> createdAt it = Some t \<longrightarrow>
         computeScore now it = Fin (max 0 ((r - 1) / (hours_since now t + 2) powr (18 / 10))))
   \<and> (createdAt it = None \<or> replies it = NaN \<longrightarrow> computeScore now it = Fin 0)
   \<and> (\<forall>t. replies it = PosInf \<and> createdAt it = Some t \<longrightarrow> computeScore now it = PosInf)
   \<and> computeScore now it \<noteq> NaN
   \<and> \<not> js_lt (computeScore now it) (Fin 0)
   \<and> (replies it \<noteq> PosInf \<longrightarrow> (\<exists>x. computeScore now it = Fin x))"
proof -
  have a: "js_le (replies it) (Fin 0) \<longrightarrow> computeScore now it = Fin 0"
    by (simp add: computeScore_def)
  have b: "computeScore now it = Fin (max 0 ((r - 1) / (hours_since now t + 2) powr (18 / 10)))"
    if "replies it = Fin r" "0 < r" "createdAt it = Some t" for r t
    using that by (auto simp: computeScore_def js_le_def raw_score_Fin isNaN_def Let_def max_def)
  have c: "createdAt it = None \<or> replies it = NaN \<longrightarrow> computeScore now it = Fin 0"
    by (auto simp: computeScore_def raw_score_invalid raw_score_NaN isNaN_def)
  have g: "computeScore now it = PosInf" if "replies it = PosInf" "createdAt it = Some t" for t
    using that by (simp add: computeScore_def js_le_def raw_score_PosInf isNaN_def)
  from computeScore_cases[of now it]
  have d: "computeScore now it \<noteq> NaN" and e: "\<not> js_lt (computeScore now it) (Fin 0)"
    and f: "replies it \<noteq> PosInf \<longrightarrow> (\<exists>x. computeScore now it = Fin x)"
    by auto
  from a b c d e f g show ?thesis by blast
qed

text \<open>Ten replies, posted an hour ago: 9 / 3 ^ 1.8. Posted an hour ahead: 9 / 2 ^ 1.8.
  No replies, or an invalid date: 0.\<close>

theorem computeScore_spec_witness:
  "computeScore 1710460800000 (mk_item ''1'' ''tech'' (Fin 10) (Some 1710457200000))
     = Fin (9 / 3 powr (18 / 10))
   \<and> computeScore 1710460800000 (mk_item ''1'' ''tech'' (Fin 10) (Some 1710464400000))
     = Fin (9 / 2 powr (18 / 10))
   \<and> computeScore 1710460800000 (mk_item ''1'' ''tech'' (Fin 0) (Some 1710457200000)) = Fin 0
   \<and> computeScore 1710460800000 (mk_item ''1'' ''tech'' (Fin 10) None) = Fin 0"
  using computeScore_spec[of "mk_item ''1'' ''tech'' (Fin 10) (Some 1710457200000)" 1710460800000]
    computeScore_spec[of "mk_item ''1'' ''tech'' (Fin 10) (Some 1710464400000)" 1710460800000]
    computeScore_spec[of "mk_item ''1'' ''tech'' (Fin 0) (Some 1710457200000)" 1710460800000]
    computeScore_spec[of "mk_item ''1'' ''tech'' (Fin 10) None" 1710460800000]
  by (simp add: mk_item_def hours_since_def js_le_def)

text \<open>
  C3 as stated fails: with \<^verbatim>\<open>replies = +Infinity\<close> the computed value is \<^verbatim>\<open>+Infinity\<close>, which is
  neither NaN nor negative, and it is returned.
\<close>

theorem computeScore_spec_counterexample:
  "computeScore 1710460800000 (mk_item ''1'' ''tech'' PosInf (Some 1710457200000)) = PosInf"
  by (simp add: computeScore_def js_le_def raw_score_PosInf mk_item_def isNaN_def)

subsection \<open>Decay\<close>

lemma hours_since_before: "now \<le> c \<Longrightarrow> hours_since now c = 0"
  by (simp add: hours_since_def max_def divide_le_0_iff)

lemma hours_since_mono_strict:
  assumes "now1 < now2" and "c < now2"
  shows "hours_since now1 c < hours_since now2 c"
proof -
  have h2: "hours_since now2 c = real_of_int (now2 - c) / 3600000"
    using assms(2) by (simp add: hours_since_def)
  have a: "0 < real_of_int (now2 - c) / 3600000" using assms(2) by simp
  have b: "real_of_int (now1 - c) / 3600000 < real_of_int (now2 - c) / 3600000"
    using assms(1) by (simp add: divide_strict_right_mono)
  have "hours_since now1 c < real_of_int (now2 - c) / 3600000"
    using a b by (simp add: hours_since_def max_def)
  then show ?thesis by (simp only: h2)
qed

lemma computeScore_Fin:
  assumes "replies it = Fin r" and "1 < r" and "createdAt it = Some c"
  shows "computeScore now it = Fin ((r - 1) / (hours_since now c + 2) powr (18 / 10))"
proof -
  have "0 < (r - 1) / (hours_since now c + 2) powr (18 / 10)"
    using assms(2) pow_hours_pos[of now c] by simp
  with assms show ?thesis
    by (auto simp: computeScore_def js_le_def raw_score_Fin isNaN_def Let_def)
qed

text \<open>
  In exact arithmetic: for an item with a finite number of replies greater than 1 and a
  valid date, and two instants of which the later is after the date, the score at the
  later instant is less than the score at the earlier one; when the later instant is not
  after the date, both elapsed times count as 0 and the two scores are equal.
\<close>

lemma score_decay_exact:
  assumes "replies it = Fin r" and "1 < r" and "createdAt it = Some c" and "now1 < now2"
  shows "(c < now2 \<longrightarrow> js_lt (computeScore now2 it) (computeScore now1 it))
         \<and> (now2 \<le> c \<longrightarrow> computeScore now2 it = computeScore now1 it)"
proof (intro conjI impI)
  assume "c < now2"
  let ?h1 = "hours_since now1 c" and ?h2 = "hours_since now2 c"
  from assms(4) \<open>c < now2\<close> have h: "?h1 < ?h2" by (rule hours_since_mono_strict)
  have "0 \<le> ?h1 + 2" using hours_since_nonneg[of now1 c] by simp
  with h have p: "(?h1 + 2) powr (18 / 10) < (?h2 + 2) powr (18 / 10)"
    by (intro powr_less_mono2) simp_all
  have pos: "0 < (?h1 + 2) powr (18 / 10)" by (rule pow_hours_pos)
  have pos2: "0 < (?h2 + 2) powr (18 / 10)" by (rule pow_hours_pos)
  from pos2 pos have "0 < (?h2 + 2) powr (18 / 10) * (?h1 + 2) powr (18 / 10)" by (rule mult_pos_pos)
  with assms(2) p have d: "(r - 1) / (?h2 + 2) powr (18 / 10) < (r - 1) / (?h1 + 2) powr (18 / 10)"
    by (intro divide_strict_left_mono) simp_all
  with computeScore_Fin[OF assms(1-3)] show "js_lt (computeScore now2 it) (computeScore now1 it)"
    by simp
next
  assume "now2 \<le> c"
  with assms(4) have "hours_since now1 c = 0" and "hours_since now2 c = 0"
    by (simp_all add: hours_since_before)
  with computeScore_Fin[OF assms(1-3)] show "computeScore now2 it = computeScore now1 it" by simp
qed

subsection \<open>Decay in the arithmetic of doubles\<close>


lemma rne_of_int [simp]: "rne (real_of_int n) = n"
  by (simp add: rne_def)
































subsection \<open>Sorting by descending score\<close>

lemma js_gt_by_score_desc: "js_gt (by_score_desc a b) (Fin 0) = js_gt b a"
  by (cases a; cases b) (auto simp: by_score_desc_def js_sub_def js_gt_def)

lemma js_le_trans: "js_le a b \<Longrightarrow> js_le b c \<Longrightarrow> js_le a c"
  by (cases a; cases b; cases c) (auto simp: js_le_def)

lemma js_gt_imp_le: "js_gt b a \<Longrightarrow> js_le a b"
  by (cases a; cases b) (auto simp: js_le_def js_gt_def)

lemma not_js_gt_imp_le: "a \<noteq> NaN \<Longrightarrow> b \<noteq> NaN \<Longrightarrow> \<not> js_gt b a \<Longrightarrow> js_le b a"
  by (cases a; cases b) (auto simp: js_le_def js_gt_def)

lemma js_gt_not_NaN: "js_gt a b \<Longrightarrow> a \<noteq> NaN \<and> b \<noteq> NaN"
  by (cases a; cases b) (auto simp: js_gt_def)

lemma js_gt_neq: "js_gt a b \<Longrightarrow> a \<noteq> b"
  by (auto simp: js_gt_def)

lemma set_sort_insert: "set (sort_insert cmp x ys) = insert x (set ys)"
  by (induction ys) auto

lemma set_js_sort: "set (js_sort cmp xs) = set xs"
  by (induction xs) (auto simp: js_sort_def set_sort_insert)

lemma length_sort_insert: "length (sort_insert cmp x ys) = Suc (length ys)"
  by (induction ys) auto

lemma length_js_sort: "length (js_sort cmp xs) = length xs"
  by (induction xs) (auto simp: js_sort_def length_sort_insert)

lemma distinct_map_sort_insert:
  "distinct (map g (sort_insert cmp x ys)) = distinct (map g (x # ys))"
  by (induction ys) (auto simp: set_sort_insert)

lemma distinct_map_js_sort: "distinct (map g (js_sort cmp xs)) = distinct (map g xs)"
proof (induction xs)
  case Nil
  then show ?case by (simp add: js_sort_def)
next
  case (Cons x xs)
  have "js_sort cmp (x # xs) = sort_insert cmp x (js_sort cmp xs)" by (simp add: js_sort_def)
  with Cons show ?case by (simp add: distinct_map_sort_insert set_js_sort)
qed

lemma sorted_sort_insert:
  assumes "f x \<noteq> NaN" and "\<forall>y\<in>set ys. f y \<noteq> NaN"
    and "sorted_wrt (\<lambda>a b. js_le (f b) (f a)) ys"
  shows "sorted_wrt (\<lambda>a b. js_le (f b) (f a)) (sort_insert (\<lambda>a b. by_score_desc (f a) (f b)) x ys)"
  using assms
proof (induction ys)
  case Nil
  then show ?case by simp
next
  case (Cons y ys)
  show ?case
  proof (cases "js_gt (f y) (f x)")
    case True
    with Cons show ?thesis
      by (auto simp: js_gt_by_score_desc set_sort_insert js_gt_imp_le)
  next
    case False
    with Cons.prems have xy: "js_le (f y) (f x)" by (simp add: not_js_gt_imp_le)
    with Cons.prems have "\<forall>z\<in>set ys. js_le (f z) (f x)" by (auto intro: js_le_trans)
    with False xy Cons.prems show ?thesis by (simp add: js_gt_by_score_desc)
  qed
qed

lemma sorted_js_sort:
  assumes "\<forall>y\<in>set xs. f y \<noteq> NaN"
  shows "sorted_wrt (\<lambda>a b. js_le (f b) (f a)) (js_sort (\<lambda>a b. by_score_desc (f a) (f b)) xs)"
  using assms
proof (induction xs)
  case Nil
  then show ?case by (simp add: js_sort_def)
next
  case (Cons x xs)
  have "js_sort (\<lambda>a b. by_score_desc (f a) (f b)) (x # xs)
      = sort_insert (\<lambda>a b. by_score_desc (f a) (f b)) x (js_sort (\<lambda>a b. by_score_desc (f a) (f b)) xs)"
    by (simp add: js_sort_def)
  with Cons show ?case by (simp add: sorted_sort_insert set_js_sort)
qed

lemma filter_sort_insert_other:
  "\<not> P x \<Longrightarrow> filter P (sort_insert cmp x ys) = filter P ys"
  by (induction ys) auto

lemma filter_sort_insert_same:
  "filter (\<lambda>e. f e = f x) (sort_insert (\<lambda>a b. by_score_desc (f a) (f b)) x ys)
     = x # filter (\<lambda>e. f e = f x) ys"
  by (induction ys) (auto simp: js_gt_by_score_desc dest: js_gt_neq)

lemma js_sort_stable:
  "filter (\<lambda>e. f e = s) (js_sort (\<lambda>a b. by_score_desc (f a) (f b)) xs) = filter (\<lambda>e. f e = s) xs"
proof (induction xs)
  case Nil
  then show ?case by (simp add: js_sort_def)
next
  case (Cons x xs)
  have e: "js_sort (\<lambda>a b. by_score_desc (f a) (f b)) (x # xs)
      = sort_insert (\<lambda>a b. by_score_desc (f a) (f b)) x (js_sort (\<lambda>a b. by_score_desc (f a) (f b)) xs)"
    by (simp add: js_sort_def)
  show ?case
  proof (cases "f x = s")
    case True
    with Cons e filter_sort_insert_same[of f x] show ?thesis by auto
  next
    case False
    with Cons e show ?thesis by (simp add: filter_sort_insert_other)
  qed
qed

section \<open>Properties of topItems\<close>

lemma join_items_filter:
  "map score (join_items m es) = map snd (filter (\<lambda>e. m (fst e) \<noteq> None) es)"
  by (induction m es rule: join_items.induct) (auto split: option.splits)

lemma js_sort_Nil: "js_sort cmp [] = []"
  by (simp add: js_sort_def)

lemma topItems_ranked:
  "topItems p n st = join_items (items st) (take n (ranked_entries st p))"
  by (simp add: topItems_def top_entries_def ranked_entries_def js_sort_Nil split: option.splits)

text \<open>
  C10. \<^verbatim>\<open>topItems(period, n)\<close> is the join with the item map of the first \<open>n\<close> entries of
  the period's table in descending order of score (the entries of the table, sorted so
  that the scores do not increase, when no score is NaN): the entries after the first
  \<open>n\<close> never appear, also when an entry among the first \<open>n\<close> is dropped for want of an item. So the
  result can be shorter than \<open>n\<close> although \<open>n\<close> or more ids of the table have an item:
  in the store of the example, two ids have an item and \<^verbatim>\<open>topItems(period, 2)\<close> has one
  element.
\<close>

theorem topItems_truncates_before_join:
  "topItems p n st = join_items (items st) (take n (ranked_entries st p))
   \<and> map score (topItems p n st)
       = map snd (filter (\<lambda>e. items st (fst e) \<noteq> None) (take n (ranked_entries st p)))
   \<and> set (ranked_entries st p) = set (case periodScores st p of None \<Rightarrow> [] | Some scores \<Rightarrow> scores)
   \<and> ((\<forall>e\<in>set (ranked_entries st p). snd e \<noteq> NaN) \<longrightarrow>
         sorted_wrt (\<lambda>a b. js_le (snd b) (snd a)) (ranked_entries st p))
   \<and> length (topItems ''2024-03-15'' 2 dangling_store) < 2
   \<and> 2 \<le> length (filter (\<lambda>e. items dangling_store (fst e) \<noteq> None)
                    (ranked_entries dangling_store ''2024-03-15''))"
proof -
  have r: "ranked_entries dangling_store ''2024-03-15'' = [(''1'', Fin 3), (''2'', Fin 2), (''3'', Fin 1)]"
    by (simp add: ranked_entries_def dangling_store_def js_sort_def by_score_desc_def js_sub_def js_gt_def)
  have b: "length (topItems ''2024-03-15'' 2 dangling_store) < 2"
    unfolding topItems_ranked r by (simp add: dangling_store_def)
  have c: "2 \<le> length (filter (\<lambda>e. items dangling_store (fst e) \<noteq> None)
                    (ranked_entries dangling_store ''2024-03-15''))"
    unfolding r by (simp add: dangling_store_def)
  have s: "set (ranked_entries st p) = set (case periodScores st p of None \<Rightarrow> [] | Some scores \<Rightarrow> scores)"
    by (simp add: ranked_entries_def set_js_sort)
  have o: "(\<forall>e\<in>set (ranked_entries st p). snd e \<noteq> NaN) \<longrightarrow>
         sorted_wrt (\<lambda>a b. js_le (snd b) (snd a)) (ranked_entries st p)"
    unfolding s unfolding ranked_entries_def by (auto intro: sorted_js_sort)
  from b c s o show ?thesis by (simp add: topItems_ranked join_items_filter)
qed

text \<open>In the store of the example the first two entries are those of the ids 1 and 2, and
  only the id 2 has an item.\<close>

theorem topItems_truncates_before_join_witness:
  "topItems ''2024-03-15'' 2 dangling_store
     = [\<lparr>item = mk_item ''2'' ''tech'' (Fin 8) (Some 0), score = Fin 2\<rparr>]
   \<and> sorted_wrt (\<lambda>a b. js_le (snd b) (snd a)) (ranked_entries dangling_store ''2024-03-15'')
   \<and> ranked_entries dangling_store ''2024-03-15'' = [(''1'', Fin 3), (''2'', Fin 2), (''3'', Fin 1)]"
proof -
  have r: "ranked_entries dangling_store ''2024-03-15'' = [(''1'', Fin 3), (''2'', Fin 2), (''3'', Fin 1)]"
    by (simp add: ranked_entries_def dangling_store_def js_sort_def by_score_desc_def js_sub_def js_gt_def)
  then have h: "\<forall>e\<in>set (ranked_entries dangling_store ''2024-03-15''). snd e \<noteq> NaN" by simp
  from topItems_truncates_before_join[of "''2024-03-15''" 2 dangling_store] h
  have "topItems ''2024-03-15'' 2 dangling_store
          = join_items (items dangling_store) (take 2 (ranked_entries dangling_store ''2024-03-15''))"
    and "sorted_wrt (\<lambda>a b. js_le (snd b) (snd a)) (ranked_entries dangling_store ''2024-03-15'')"
    by blast+
  with r show ?thesis by (simp add: dangling_store_def)
qed

section \<open>Properties of scoreAndRank\<close>

lemma unique_loop_first_by_id:
  "unique_loop skipIds excludeSet seen its
     = first_by_id (filter (\<lambda>it. item_id it \<notin> seen \<and> item_id it \<notin> skipIds
                                \<and> toLowerCase (nodeName it) \<notin> excludeSet) its)"
proof (induction its arbitrary: seen)
  case Nil
  then show ?case by simp
next
  case (Cons it its)
  have "filter (\<lambda>y. item_id y \<noteq> item_id it)
          (filter (\<lambda>it. item_id it \<notin> seen \<and> item_id it \<notin> skipIds \<and> toLowerCase (nodeName it) \<notin> excludeSet) its)
      = filter (\<lambda>y. item_id y \<notin> insert (item_id it) seen \<and> item_id y \<notin> skipIds
                     \<and> toLowerCase (nodeName y) \<notin> excludeSet) its"
    by (auto intro: filter_cong)
  with Cons show ?case by simp
qed

lemma first_by_id_subset: "set (first_by_id xs) \<subseteq> set xs"
  by (induction xs rule: first_by_id.induct) auto

lemma distinct_first_by_id: "distinct (map item_id (first_by_id xs))"
proof (induction xs rule: first_by_id.induct)
  case 1
  then show ?case by simp
next
  case (2 x xs)
  have "item_id x \<notin> item_id ` set (first_by_id (filter (\<lambda>y. item_id y \<noteq> item_id x) xs))"
    using first_by_id_subset[of "filter (\<lambda>y. item_id y \<noteq> item_id x) xs"] by auto
  with 2 show ?case by simp
qed

lemma scoreAndRank_qualifying:
  "scoreAndRank now its n skipIds excl
     = take n (js_sort (\<lambda>a b. by_score_desc (score a) (score b)) (qualifying now its skipIds excl))"
  by (simp add: scoreAndRank_def qualifying_def scored_items_def unique_loop_first_by_id Let_def)

lemma qualifying_items:
  "e \<in> set (qualifying now its skipIds excl) \<Longrightarrow>
   js_gt (score e) (Fin 0) \<and> item e \<in> set its \<and> item_id (item e) \<notin> skipIds
   \<and> toLowerCase (nodeName (item e)) \<notin> toLowerCase ` set excl"
  using first_by_id_subset[of "filter (\<lambda>it. item_id it \<notin> skipIds
                        \<and> toLowerCase (nodeName it) \<notin> toLowerCase ` set excl) its"]
  by (auto simp: qualifying_def)

lemma distinct_qualifying: "distinct (map (\<lambda>e. item_id (item e)) (qualifying now its skipIds excl))"
proof -
  let ?u = "first_by_id (filter (\<lambda>it. item_id it \<notin> skipIds
                        \<and> toLowerCase (nodeName it) \<notin> toLowerCase ` set excl) its)"
  have "distinct (map (\<lambda>e. item_id (item e)) (map (\<lambda>it. \<lparr>item = it, score = computeScore now it\<rparr>) ?u))"
    using distinct_first_by_id[of "filter (\<lambda>it. item_id it \<notin> skipIds
                        \<and> toLowerCase (nodeName it) \<notin> toLowerCase ` set excl) its"]
    by (simp add: comp_def)
  then show ?thesis unfolding qualifying_def by (rule distinct_map_filter)
qed

lemma subseq_first_by_id: "subseq (first_by_id xs) xs"
proof (induction xs rule: first_by_id.induct)
  case 1
  then show ?case by simp
next
  case (2 x xs)
  have "subseq (filter (\<lambda>y. item_id y \<noteq> item_id x) xs) xs" by (rule subseq_filter_left)
  with 2 have "subseq (first_by_id (filter (\<lambda>y. item_id y \<noteq> item_id x) xs)) xs"
    by (rule subseq_order.order_trans)
  then show ?case by simp
qed

lemma map_item_scored:
  "map item (filter (\<lambda>s. js_gt (score s) (Fin 0)) (map (\<lambda>it. \<lparr>item = it, score = computeScore now it\<rparr>) u))
     = filter (\<lambda>it. js_gt (computeScore now it) (Fin 0)) u"
  by (induction u) simp_all

lemma subseq_qualifying: "subseq (map item (qualifying now its skipIds excl)) its"
proof -
  let ?ok = "\<lambda>it. item_id it \<notin> skipIds \<and> toLowerCase (nodeName it) \<notin> toLowerCase ` set excl"
  have a: "map item (qualifying now its skipIds excl)
      = filter (\<lambda>it. js_gt (computeScore now it) (Fin 0)) (first_by_id (filter ?ok its))"
    unfolding qualifying_def by (rule map_item_scored)
  have b: "subseq (filter (\<lambda>it. js_gt (computeScore now it) (Fin 0)) (first_by_id (filter ?ok its)))
      (first_by_id (filter ?ok its))" by (rule subseq_filter_left)
  have c: "subseq (first_by_id (filter ?ok its)) (filter ?ok its)" by (rule subseq_first_by_id)
  have d: "subseq (filter ?ok its) its" by (rule subseq_filter_left)
  from b c have "subseq (filter (\<lambda>it. js_gt (computeScore now it) (Fin 0)) (first_by_id (filter ?ok its)))
      (filter ?ok its)" by (rule subseq_order.order_trans)
  from this d have "subseq (filter (\<lambda>it. js_gt (computeScore now it) (Fin 0)) (first_by_id (filter ?ok its))) its"
    by (rule subseq_order.order_trans)
  with a show ?thesis by simp
qed

subsection \<open>The arrays in the store\<close>

lemma unique_loop_refs_snd:
  "map snd (unique_loop_refs skipIds excludeSet seen ps) = unique_loop skipIds excludeSet seen (map snd ps)"
  by (induction ps arbitrary: seen) simp_all

lemma unique_loop_refs_subset: "set (unique_loop_refs skipIds excludeSet seen ps) \<subseteq> set ps"
  by (induction ps arbitrary: seen) auto

lemma read_items_sound: "read_items h rs = Some ps \<Longrightarrow> p \<in> set ps \<Longrightarrow> item_at h (fst p) = Some (snd p)"
  by (induction rs arbitrary: ps) (auto split: option.splits)

lemma item_at_append: "item_at h r = Some it \<Longrightarrow> item_at (h @ h') r = Some it"
  by (auto simp: item_at_def nth_append split: if_splits)

lemma read_scored_map:
  "(\<And>p. p \<in> set ps \<Longrightarrow> item_at h (fst p) = Some (snd p)) \<Longrightarrow>
   read_scored h (map (\<lambda>p. (fst p, f (snd p))) ps) = Some (map (\<lambda>p. \<lparr>item = snd p, score = f (snd p)\<rparr>) ps)"
  by (induction ps) simp_all

lemma sort_insert_map:
  "map f (sort_insert (\<lambda>a b. c (f a) (f b)) x ys) = sort_insert c (f x) (map f ys)"
  by (induction ys) simp_all

lemma js_sort_map: "map f (js_sort (\<lambda>a b. c (f a) (f b)) xs) = js_sort c (map f xs)"
  by (induction xs) (simp_all add: js_sort_def sort_insert_map)

lemma read_scored_decode:
  "(\<And>e. e \<in> set es \<Longrightarrow> item_at h (fst e) = Some (g (fst e))) \<Longrightarrow>
   read_scored h es = Some (map (\<lambda>e. \<lparr>item = g (fst e), score = snd e\<rparr>) es)"
  by (induction es) simp_all

lemma scoreAndRank_heap_result:
  assumes "items_at h a = Some ps"
  shows "scoreAndRank_heap now a n skipIds excl h
     = Some (length h + 3,
         h @ [ItemArray (map fst (unique_loop_refs skipIds (set (map toLowerCase excl)) {} ps)),
              ScoredArray (map (\<lambda>p. (fst p, computeScore now (snd p)))
                 (unique_loop_refs skipIds (set (map toLowerCase excl)) {} ps)),
              ScoredArray (js_sort (\<lambda>a b. by_score_desc (snd a) (snd b))
                 (filter (\<lambda>e. js_gt (snd e) (Fin 0)) (map (\<lambda>p. (fst p, computeScore now (snd p)))
                   (unique_loop_refs skipIds (set (map toLowerCase excl)) {} ps)))),
              ScoredArray (take n (js_sort (\<lambda>a b. by_score_desc (snd a) (snd b))
                 (filter (\<lambda>e. js_gt (snd e) (Fin 0)) (map (\<lambda>p. (fst p, computeScore now (snd p)))
                   (unique_loop_refs skipIds (set (map toLowerCase excl)) {} ps)))))])"
  using assms
  by (simp add: scoreAndRank_heap_def alloc_def elements_def Let_def nth_append list_update_append)


lemma scored_of_refs:
  assumes ok: "\<And>p. p \<in> set kept \<Longrightarrow> item_at h (fst p) = Some (snd p)"
  shows "read_scored h (take n (js_sort (\<lambda>a b. by_score_desc (snd a) (snd b))
            (filter (\<lambda>e. js_gt (snd e) (Fin 0)) (map (\<lambda>p. (fst p, computeScore now (snd p))) kept))))
       = Some (take n (js_sort (\<lambda>a b. by_score_desc (score a) (score b))
            (scored_items now (map snd kept))))"
proof -
  let ?D = "\<lambda>e. \<lparr>item = the (item_at h (fst e)), score = snd e\<rparr>"
  let ?es = "filter (\<lambda>e. js_gt (snd e) (Fin 0)) (map (\<lambda>p. (fst p, computeScore now (snd p))) kept)"
  let ?fin = "take n (js_sort (\<lambda>a b. by_score_desc (snd a) (snd b)) ?es)"
  have "set ?fin \<subseteq> set ?es"
    using set_take_subset[of n "js_sort (\<lambda>a b. by_score_desc (snd a) (snd b)) ?es"]
    by (simp add: set_js_sort)
  then have "e \<in> set ?fin \<Longrightarrow> item_at h (fst e) = Some (the (item_at h (fst e)))" for e
    using ok by auto
  then have r: "read_scored h ?fin = Some (map ?D ?fin)"
    by (rule read_scored_decode)
  have m: "map ?D (map (\<lambda>p. (fst p, computeScore now (snd p))) kept)
      = map (\<lambda>it. \<lparr>item = it, score = computeScore now it\<rparr>) (map snd kept)"
    using ok by simp
  have f: "map ?D ?es = scored_items now (map snd kept)"
    unfolding scored_items_def m[symmetric] by (simp add: filter_map comp_def)
  have "map ?D (js_sort (\<lambda>a b. by_score_desc (snd a) (snd b)) ?es)
      = js_sort (\<lambda>a b. by_score_desc (score a) (score b)) (map ?D ?es)"
    using js_sort_map[of ?D "\<lambda>a b. by_score_desc (score a) (score b)" ?es] by simp
  then have "take n (map ?D (js_sort (\<lambda>a b. by_score_desc (snd a) (snd b)) ?es))
      = take n (js_sort (\<lambda>a b. by_score_desc (score a) (score b)) (scored_items now (map snd kept)))"
    by (simp only: f)
  then have "map ?D ?fin = take n (js_sort (\<lambda>a b. by_score_desc (score a) (score b)) (scored_items now (map snd kept)))"
    by (simp only: take_map)
  with r show ?thesis by simp
qed

lemma scoreAndRank_heap_pure:
  assumes "items_at h a = Some ps"
  shows "\<exists>res h'. scoreAndRank_heap now a n skipIds excl h = Some (res, h')
           \<and> take (length h) h' = h
           \<and> scored_at h' res = Some (scoreAndRank now (map snd ps) n skipIds excl)"
proof -
  let ?kept = "unique_loop_refs skipIds (set (map toLowerCase excl)) {} ps"
  let ?es = "filter (\<lambda>e. js_gt (snd e) (Fin 0)) (map (\<lambda>p. (fst p, computeScore now (snd p))) ?kept)"
  let ?fin = "take n (js_sort (\<lambda>a b. by_score_desc (snd a) (snd b)) ?es)"
  let ?h' = "h @ [ItemArray (map fst ?kept),
              ScoredArray (map (\<lambda>p. (fst p, computeScore now (snd p))) ?kept),
              ScoredArray (js_sort (\<lambda>a b. by_score_desc (snd a) (snd b)) ?es),
              ScoredArray ?fin]"
  have res: "scoreAndRank_heap now a n skipIds excl h = Some (length h + 3, ?h')"
    using assms by (rule scoreAndRank_heap_result)
  from assms obtain rs where rs: "read_items h rs = Some ps"
    by (auto simp: items_at_def split: if_splits cell.splits)
  have "item_at ?h' (fst p) = Some (snd p)" if "p \<in> set ?kept" for p
  proof -
    from that have "p \<in> set ps" using unique_loop_refs_subset by blast
    with rs have "item_at h (fst p) = Some (snd p)" by (rule read_items_sound)
    then show ?thesis by (rule item_at_append)
  qed
  then have "read_scored ?h' ?fin
      = Some (take n (js_sort (\<lambda>a b. by_score_desc (score a) (score b)) (scored_items now (map snd ?kept))))"
    by (rule scored_of_refs)
  then have "scored_at ?h' (length h + 3) = Some (scoreAndRank now (map snd ps) n skipIds excl)"
    by (simp add: scored_at_def nth_append scoreAndRank_def unique_loop_refs_snd Let_def)
  moreover have "take (length h) ?h' = h" by simp
  ultimately show ?thesis using res by blast
qed

subsection \<open>The contract\<close>

text \<open>
  C4. The result of \<^verbatim>\<open>scoreAndRank\<close> has no id twice; every entry has a score greater than 0,
  an id that is not to be skipped and a node that is not excluded, whatever the case of
  the letters; the scores do not increase along the result; entries of equal score are in
  the order of the qualifying items, which are in the order of the input; the length is
  the smaller of \<open>n\<close> and the number of qualifying items, \<open>n\<close> being a count, where the
  qualifying items are taken by dropping the skipped and excluded items first and then
  keeping the first of every id; and on the store the call returns a new array with this
  result and leaves every cell that was there as it was: the array of the input and its
  items are not changed.
\<close>

theorem scoreAndRank_contract:
  "(let r = scoreAndRank now its n skipIds excl; q = qualifying now its skipIds excl in
     distinct (map (\<lambda>e. item_id (item e)) r)
     \<and> (\<forall>e\<in>set r. js_gt (score e) (Fin 0) \<and> item_id (item e) \<notin> skipIds
                      \<and> toLowerCase (nodeName (item e)) \<notin> toLowerCase ` set excl)
     \<and> sorted_wrt (\<lambda>a b. js_le (score b) (score a)) r
     \<and> (\<forall>s. prefix (filter (\<lambda>e. score e = s) r) (filter (\<lambda>e. score e = s) q))
     \<and> subseq (map item q) its
     \<and> length r = min n (length q)
     \<and> (\<forall>h a ps. items_at h a = Some ps \<and> map snd ps = its \<longrightarrow>
           (\<exists>res h'. scoreAndRank_heap now a n skipIds excl h = Some (res, h')
                      \<and> scored_at h' res = Some r
                      \<and> take (length h) h' = h)))"
proof -
  let ?q = "qualifying now its skipIds excl"
  let ?s = "js_sort (\<lambda>a b. by_score_desc (score a) (score b)) ?q"
  have r: "scoreAndRank now its n skipIds excl = take n ?s" by (rule scoreAndRank_qualifying)
  have sub: "set (take n ?s) \<subseteq> set ?q" using set_take_subset[of n ?s] by (simp add: set_js_sort)
  have d: "distinct (map (\<lambda>e. item_id (item e)) (take n ?s))"
    using distinct_qualifying[of now its skipIds excl]
    by (simp add: distinct_map_js_sort take_map[symmetric])
  have m: "\<forall>e\<in>set (take n ?s). js_gt (score e) (Fin 0) \<and> item_id (item e) \<notin> skipIds
                      \<and> toLowerCase (nodeName (item e)) \<notin> toLowerCase ` set excl"
    using sub qualifying_items[of _ now its skipIds excl] by blast
  have "\<forall>e\<in>set ?q. score e \<noteq> NaN"
    using qualifying_items[of _ now its skipIds excl] js_gt_not_NaN by blast
  then have "sorted_wrt (\<lambda>a b. js_le (score b) (score a)) ?s" by (rule sorted_js_sort)
  then have so: "sorted_wrt (\<lambda>a b. js_le (score b) (score a)) (take n ?s)"
    by (rule sorted_wrt_take)
  have st: "prefix (filter (\<lambda>e. score e = s) (take n ?s)) (filter (\<lambda>e. score e = s) ?q)" for s
    using filter_mono_prefix[OF take_is_prefix[of n ?s], of "\<lambda>e. score e = s"]
    by (simp add: js_sort_stable)
  have l: "length (take n ?s) = min n (length ?q)" by (simp add: length_js_sort min.commute)
  have hp: "\<exists>res h'. scoreAndRank_heap now a n skipIds excl h = Some (res, h')
                      \<and> scored_at h' res = Some (take n ?s)
                      \<and> take (length h) h' = h"
    if "items_at h a = Some ps \<and> map snd ps = its" for h a ps
    using scoreAndRank_heap_pure[of h a ps now n skipIds excl] that r by auto
  from d m so st l hp subseq_qualifying[of now its skipIds excl] show ?thesis
    unfolding r Let_def by blast
qed

lemma computeScore_sample:
  "0 < r \<Longrightarrow> computeScore 1710460800000 (mk_item k nd (Fin r) (Some 1710457200000))
     = (if r < 1 then Fin 0 else Fin ((r - 1) / 3 powr (18 / 10)))"
  apply (simp add: computeScore_def raw_score_def hoursSincePost_def mk_item_def getTime_def js_sub_def
      Math_max_def js_le_def isNaN_def Let_def)
  apply (simp add: divide_less_0_iff)
  done

lemma js_gt_Fin: "js_gt (Fin a) (Fin b) = (b < a)"
  by (simp add: js_gt_def)

lemma computeScore_zero: "computeScore now (mk_item k nd (Fin 0) t) = Fin 0"
  by (simp add: computeScore_def mk_item_def js_le_def)

lemma mk_item_sel: "item_id (mk_item k nd r t) = k" "nodeName (mk_item k nd r t) = nd"
  by (simp_all add: mk_item_def)

lemma toLowerCase_samples: "toLowerCase ''tech'' = ''tech''" "toLowerCase ''Deals'' = ''deals''"
   "toLowerCase ''jobs'' = ''jobs''" "toLowerCase ''deals'' = ''deals''"
  by (simp_all add: toLowerCase_def lower_char_def)

lemma qualifying_rank_input: "qualifying 1710460800000 rank_input {''9''} [''deals'']
   = [\<lparr>item = mk_item ''1'' ''tech'' (Fin 10) (Some 1710457200000), score = Fin (9 / 3 powr (18 / 10))\<rparr>,
      \<lparr>item = mk_item ''4'' ''jobs'' (Fin 20) (Some 1710457200000), score = Fin (19 / 3 powr (18 / 10))\<rparr>,
      \<lparr>item = mk_item ''5'' ''jobs'' (Fin 5) (Some 1710457200000), score = Fin (4 / 3 powr (18 / 10))\<rparr>]"
  by (simp add: qualifying_def rank_input_def mk_item_sel toLowerCase_samples computeScore_sample computeScore_zero js_gt_def)

lemma items_at_rank_heap:
  "items_at rank_heap 7 = Some (zip [0, 1, 2, 3, 4, 5, 6] rank_input)"
  by (simp add: items_at_def rank_heap_def rank_input_def item_at_def)

text \<open>Of the seven items of the example three qualify, and the two with the most replies
  are returned, the greater score first; on the store the result is a new array, and the
  eight cells of the input are as they were.\<close>

theorem scoreAndRank_contract_witness:
  "scoreAndRank 1710460800000 rank_input 2 {''9''} [''deals'']
   = [\<lparr>item = mk_item ''4'' ''jobs'' (Fin 20) (Some 1710457200000), score = Fin (19 / 3 powr (18 / 10))\<rparr>,
      \<lparr>item = mk_item ''1'' ''tech'' (Fin 10) (Some 1710457200000), score = Fin (9 / 3 powr (18 / 10))\<rparr>]
   \<and> length (qualifying 1710460800000 rank_input {''9''} [''deals'']) = 3
   \<and> (\<exists>res h'. scoreAndRank_heap 1710460800000 7 2 {''9''} [''deals''] rank_heap = Some (res, h')
         \<and> scored_at h' res = Some
             [\<lparr>item = mk_item ''4'' ''jobs'' (Fin 20) (Some 1710457200000), score = Fin (19 / 3 powr (18 / 10))\<rparr>,
              \<lparr>item = mk_item ''1'' ''tech'' (Fin 10) (Some 1710457200000), score = Fin (9 / 3 powr (18 / 10))\<rparr>]
         \<and> take 8 h' = rank_heap)"
proof -
  have s: "js_sort (\<lambda>a b. by_score_desc (score a) (score b))
             (qualifying 1710460800000 rank_input {''9''} [''deals''])
    = [\<lparr>item = mk_item ''4'' ''jobs'' (Fin 20) (Some 1710457200000), score = Fin (19 / 3 powr (18 / 10))\<rparr>,
       \<lparr>item = mk_item ''1'' ''tech'' (Fin 10) (Some 1710457200000), score = Fin (9 / 3 powr (18 / 10))\<rparr>,
       \<lparr>item = mk_item ''5'' ''jobs'' (Fin 5) (Some 1710457200000), score = Fin (4 / 3 powr (18 / 10))\<rparr>]"
    by (simp add: qualifying_rank_input js_sort_def js_gt_by_score_desc js_gt_Fin divide_less_cancel)
  have r: "scoreAndRank 1710460800000 rank_input 2 {''9''} [''deals'']
      = take 2 (js_sort (\<lambda>a b. by_score_desc (score a) (score b))
             (qualifying 1710460800000 rank_input {''9''} [''deals'']))"
    by (rule scoreAndRank_qualifying)
  have v: "scoreAndRank 1710460800000 rank_input 2 {''9''} [''deals'']
   = [\<lparr>item = mk_item ''4'' ''jobs'' (Fin 20) (Some 1710457200000), score = Fin (19 / 3 powr (18 / 10))\<rparr>,
      \<lparr>item = mk_item ''1'' ''tech'' (Fin 10) (Some 1710457200000), score = Fin (9 / 3 powr (18 / 10))\<rparr>]"
    unfolding r s by simp
  have i: "items_at rank_heap 7 = Some (zip [0, 1, 2, 3, 4, 5, 6] rank_input)
      \<and> map snd (zip [0, 1, 2, 3, 4, 5, 6::nat] rank_input) = rank_input"
    by (simp add: items_at_rank_heap) (simp add: rank_input_def)
  have len: "length rank_heap = 8" by (simp add: rank_heap_def rank_input_def)
  note c = scoreAndRank_contract[of 1710460800000 rank_input 2 "{''9''}" "[''deals'']"]
  from c have "length (scoreAndRank 1710460800000 rank_input 2 {''9''} [''deals''])
      = min 2 (length (qualifying 1710460800000 rank_input {''9''} [''deals'']))"
    by (simp add: Let_def)
  then have q: "length (qualifying 1710460800000 rank_input {''9''} [''deals'']) = 3"
    by (simp add: qualifying_rank_input)
  from c i have "\<exists>res h'. scoreAndRank_heap 1710460800000 7 2 {''9''} [''deals''] rank_heap = Some (res, h')
         \<and> scored_at h' res = Some (scoreAndRank 1710460800000 rank_input 2 {''9''} [''deals''])
         \<and> take (length rank_heap) h' = rank_heap"
    unfolding Let_def by blast
  then have "\<exists>res h'. scoreAndRank_heap 1710460800000 7 2 {''9''} [''deals''] rank_heap = Some (res, h')
         \<and> scored_at h' res = Some
             [\<lparr>item = mk_item ''4'' ''jobs'' (Fin 20) (Some 1710457200000), score = Fin (19 / 3 powr (18 / 10))\<rparr>,
              \<lparr>item = mk_item ''1'' ''tech'' (Fin 10) (Some 1710457200000), score = Fin (9 / 3 powr (18 / 10))\<rparr>]
         \<and> take 8 h' = rank_heap"
    unfolding v len .
  with v q show ?thesis by blast
qed

text \<open>
  With the steps in the order of the specification, an item of an excluded node stands for
  its id and is then dropped, so that no item of the id qualifies; the loop passes over the
  excluded item without marking its id as seen, and takes the next item of the id: with
  \<^verbatim>\<open>excludeNodes = ["deals"]\<close> and the id 1 first in the node deals, then in the node tech, the
  result has one entry, and not \<open>min(5, 0)\<close>.
\<close>

theorem scoreAndRank_contract_counterexample:
  "scoreAndRank 1710460800000 shadow_input 5 {} [''deals'']
     = [\<lparr>item = mk_item ''1'' ''tech'' (Fin 10) (Some 1710457200000), score = Fin (9 / 3 powr (18 / 10))\<rparr>]
   \<and> spec_qualifying 1710460800000 shadow_input {} [''deals''] = []
   \<and> length (scoreAndRank 1710460800000 shadow_input 5 {} [''deals''])
       \<noteq> min 5 (length (spec_qualifying 1710460800000 shadow_input {} [''deals'']))"
proof -
  have a: "scoreAndRank 1710460800000 shadow_input 5 {} [''deals'']
     = [\<lparr>item = mk_item ''1'' ''tech'' (Fin 10) (Some 1710457200000), score = Fin (9 / 3 powr (18 / 10))\<rparr>]"
    by (simp add: scoreAndRank_def shadow_input_def scored_items_def mk_item_sel toLowerCase_samples
        computeScore_sample js_gt_Fin js_sort_def Let_def)
  have b: "spec_qualifying 1710460800000 shadow_input {} [''deals''] = []"
    by (simp add: spec_qualifying_def shadow_input_def mk_item_sel toLowerCase_samples)
  show ?thesis unfolding a b by simp
qed

section \<open>Properties of load\<close>

text \<open>
  \<^verbatim>\<open>load\<close> is a total function: it never raises. Without a file, with a file that cannot be
  read or parsed, and with the content \<^verbatim>\<open>null\<close>, the store stays as it was, which is empty
  when the constructor calls \<^verbatim>\<open>load\<close>.
\<close>

lemma load_without_parse:
  "load newDate NoFile st = st \<and> load newDate NotJson st = st \<and> load newDate (Json JNull) st = st"
  by (simp add: load_def try_block_def load_items_def get_prop_def and_then_def)

text \<open>
  C7 fails on the code. On the snapshot above the item is stored, then the loop over
  \<^verbatim>\<open>raw.published\<close> throws a \<^verbatim>\<open>TypeError\<close> (a number is not iterable); the \<^verbatim>\<open>catch\<close> block
  prints that the store starts fresh and leaves the item in it: after \<^verbatim>\<open>load\<close> on this
  malformed file the store is not empty.
\<close>

theorem load_keeps_partial_state:
  "try_block newDate partial_snapshot empty_raw
     = (empty_raw\<lparr>raw_items :=
          [(''1'', JObj [(''id'', JStr ''1''), (''replies'', JNum (Fin 3)),
                        (''createdAt'', JDate (newDate (Some (JStr ''2024-03-15T00:00:00.000Z''))))])]\<rparr>,
        Some TypeError)
   \<and> raw_items (load newDate partial_snapshot empty_raw) \<noteq> []"
  by (simp add: load_def try_block_def partial_snapshot_def load_items_def load_periodScores_def
      load_published_def get_prop_def truthy_def Object_entries_def iterate_def set_createdAt_def
      and_then_def empty_raw_def)

end
